theory Spec2Isabelle
  imports Complex_Main
begin

section \<open>Entity tables\<close>

text \<open>
  An entity set is what the store returns for the tables: for each table the list of its
  rows, in order, each row a record of the columns the pipeline reads.
  \<^verbatim>\<open>fetch_all_data\<close> turns every list into a frame with \<^verbatim>\<open>pd.DataFrame(rows)\<close>, and the
  assembler functions below are given those frames.  Floating point columns are modelled
  by real numbers: comparisons against the thresholds are exact in both, rounding inside
  sums and quotients is not represented.
\<close>

record student =
  s_id :: string
  current_gpa :: real
  major :: string
  has_disability :: bool

record course =
  c_id :: string
  difficulty_level :: real
  credits :: real

record grade =
  student_id :: string
  course_id :: string
  grade_point :: real
  attendance_rate :: real

record preference =
  p_student_id :: string

record entities =
  students :: "student list"
  courses :: "course list"
  grades :: "grade list"
  preferences :: "preference list"

datatype error = IndexError | KeyError | ValueError | AttributeError | LibraryError

section \<open>pandas primitives used by the assembler\<close>

text \<open>
  A frame either has the columns of its rows, or has no columns at all.
  \<^verbatim>\<open>pd.DataFrame(rows)\<close> takes its columns from the row dictionaries, so the frame built
  from an empty list has none.  A frame obtained by filtering or merging frames that have
  columns keeps them, also when no row is left.
\<close>

datatype 'a frame = NoColumns | Rows "'a list"

definition DataFrame :: "'a list \<Rightarrow> 'a frame" where
  "DataFrame rows = (if rows = [] then NoColumns else Rows rows)"

text \<open>\<^verbatim>\<open>df['name']\<close>: selecting a column of a frame that lacks it raises \<^verbatim>\<open>KeyError\<close>.
  The rows are handed on, for the caller to compare the column and filter.\<close>

definition column :: "'a frame \<Rightarrow> error + 'a list" where
  "column df = (case df of NoColumns \<Rightarrow> Inl KeyError | Rows rows \<Rightarrow> Inr rows)"

text \<open>
  The rows of an inner join: one output row for every pair of a left row and a right row
  with equal keys, in the order of the left rows; a left row without a partner yields no
  row.
\<close>

definition inner_join :: "'a list \<Rightarrow> 'b list \<Rightarrow> ('a \<Rightarrow> string) \<Rightarrow> ('b \<Rightarrow> string) \<Rightarrow> ('a \<times> 'b) list" where
  "inner_join left right left_on right_on =
     concat (map (\<lambda>l. map (\<lambda>r. (l, r)) (filter (\<lambda>r. right_on r = left_on l) right)) left)"

text \<open>
  \<^verbatim>\<open>left.merge(right, left_on=.., right_on=..)\<close>: \<^verbatim>\<open>KeyError\<close> when either frame lacks
  its key column, the inner join otherwise.  The merged frame has columns.
\<close>

definition merge :: "'a frame \<Rightarrow> 'b frame \<Rightarrow> ('a \<Rightarrow> string) \<Rightarrow> ('b \<Rightarrow> string) \<Rightarrow> error + ('a \<times> 'b) list" where
  "merge left right left_on right_on =
     (case left of
        NoColumns \<Rightarrow> Inl KeyError
      | Rows ls \<Rightarrow>
         (case right of
            NoColumns \<Rightarrow> Inl KeyError
          | Rows rs \<Rightarrow> Inr (inner_join ls rs left_on right_on)))"

text \<open>\<^verbatim>\<open>Series.mean()\<close> of a non-empty column.\<close>

definition mean :: "real list \<Rightarrow> real" where
  "mean xs = sum_list xs / real (length xs)"

text \<open>\<^verbatim>\<open>.astype(int)\<close> and \<^verbatim>\<open>int(..)\<close> on a boolean.\<close>

definition astype_int :: "bool \<Rightarrow> int" where
  "astype_int b = (if b then 1 else 0)"

section \<open>Feature assembler: \<^verbatim>\<open>DataPreprocessor\<close>\<close>

record feature_row =
  f_current_gpa :: real
  f_course_difficulty :: real
  f_attendance_rate :: real
  f_has_disability :: int
  f_credits :: real

text \<open>The two merges shared by \<^verbatim>\<open>prepare_performance_data\<close> and
  \<^verbatim>\<open>_prepare_training_data\<close>: grades with students, the result with courses.\<close>

definition merged_rows :: "entities \<Rightarrow> error + ((grade \<times> student) \<times> course) list" where
  "merged_rows data =
     (case merge (DataFrame (grades data)) (DataFrame (students data)) student_id s_id of
        Inl e \<Rightarrow> Inl e
      | Inr merged \<Rightarrow>
          merge (Rows merged) (DataFrame (courses data)) (\<lambda>(g, s). course_id g) c_id)"

definition prepare_performance_data ::
  "entities \<Rightarrow> error + feature_row list \<times> real list \<times> int list" where
  "prepare_performance_data data =
     (case merged_rows data of
        Inl e \<Rightarrow> Inl e
      | Inr merged \<Rightarrow>
         (let features = map (\<lambda>((g, s), c).
                           \<lparr>f_current_gpa = current_gpa s,
                            f_course_difficulty = difficulty_level c,
                            f_attendance_rate = attendance_rate g,
                            f_has_disability = astype_int (has_disability s),
                            f_credits = credits c\<rparr>) merged;
              target = map (\<lambda>((g, s), c). grade_point g) merged;
              at_risk = map (\<lambda>t. astype_int (t < 2.0)) target
          in Inr (features, target, at_risk)))"



section \<open>Similarity engine\<close>

record similar_row =
  sim_student_id :: string
  similarity_score :: real
  avg_grade :: real

text \<open>
  \<^verbatim>\<open>sort_values('similarity_score', ascending=False)\<close>: insertion into a list kept in
  descending order of the score; a row goes in front of the rows whose score is not
  greater, so rows of equal score keep their input order.
\<close>

fun insert_desc :: "similar_row \<Rightarrow> similar_row list \<Rightarrow> similar_row list" where
  "insert_desc x [] = [x]"
| "insert_desc x (y # ys) =
     (if similarity_score y > similarity_score x then y # insert_desc x ys else x # y # ys)"

definition sort_values_desc :: "similar_row list \<Rightarrow> similar_row list" where
  "sort_values_desc rows = foldr insert_desc rows []"

text \<open>The body of the loop over \<^verbatim>\<open>students_df.iterrows()\<close>, for one student.\<close>

definition similar_entry :: "grade list \<Rightarrow> string \<Rightarrow> student \<Rightarrow> student \<Rightarrow> similar_row list" where
  "similar_entry grade_rows sid target_student student =
     (if s_id student = sid then []
      else let student_grades = filter (\<lambda>g. student_id g = s_id student) grade_rows
           in if length student_grades = 0 then []
              else let gpa_diff = \<bar>current_gpa target_student - current_gpa student\<bar>;
                       major_match = (if major target_student = major student then 1 else 0);
                       disability_match =
                         (if has_disability target_student = has_disability student then 1 else 0);
                       score = (5 - gpa_diff) * 0.4 + major_match * 0.3 + disability_match * 0.3
                   in [\<lparr>sim_student_id = s_id student,
                        similarity_score = score,
                        avg_grade = mean (map grade_point student_grades)\<rparr>])"

text \<open>
  \<^verbatim>\<open>calculate_similarity_features\<close>.  The student and grade tables are read by a column;
  the preference frame is only bound to a name.  \<^verbatim>\<open>pd.DataFrame([])\<close> has no columns, so
  sorting it by \<^verbatim>\<open>'similarity_score'\<close> raises \<^verbatim>\<open>KeyError\<close>.
\<close>

definition calculate_similarity_features :: "string \<Rightarrow> entities \<Rightarrow> error + similar_row list" where
  "calculate_similarity_features sid data =
     (case column (DataFrame (students data)) of
        Inl e \<Rightarrow> Inl e
      | Inr student_rows \<Rightarrow>
     (case filter (\<lambda>s. s_id s = sid) student_rows of
        [] \<Rightarrow> Inl IndexError
      | target_student # _ \<Rightarrow>
     (case column (DataFrame (grades data)) of
        Inl e \<Rightarrow> Inl e
      | Inr grade_rows \<Rightarrow>
         (let target_grades = filter (\<lambda>g. student_id g = sid) grade_rows;
              target_avg_grade = (if length target_grades > 0
                                  then mean (map grade_point target_grades) else 2.5);
              similar_students =
                concat (map (similar_entry grade_rows sid target_student) student_rows)
          in case column (DataFrame similar_students) of
               Inl e \<Rightarrow> Inl e
             | Inr rows \<Rightarrow> Inr (sort_values_desc rows)))))"

section \<open>Training pairs: \<^verbatim>\<open>CourseRecommender._prepare_training_data\<close>\<close>

record pair_cols =
  t_student_id :: string
  t_course_id :: string
  t_student_gpa :: real
  t_course_difficulty :: real
  t_has_disability :: int
  t_credits :: real
  t_actual_grade :: real
  t_success :: int

text \<open>
  A row of the assembled frame.  Eight of its columns are taken from \<^verbatim>\<open>merged\<close>, one
  from \<^verbatim>\<open>student_avg_grades\<close>; a cell is \<open>None\<close> where pandas fills in NaN.
\<close>

record training_row =
  merged_cols :: "pair_cols option"
  avg_previous_grade :: "real option"

text \<open>
  \<^verbatim>\<open>pd.DataFrame({...})\<close> from columns that carry their own index aligns them on the
  index labels: the frame's index is the union of the columns' indexes and a column is NaN
  at the labels it lacks.  Both \<^verbatim>\<open>merged\<close> (after the merges) and \<^verbatim>\<open>grades_df\<close> (built from
  a list of rows) carry the default index \<open>0, 1, 2, \<dots>\<close>, so label \<open>i\<close> is position \<open>i\<close>
  in each.
\<close>

definition dataframe_align :: "pair_cols list \<Rightarrow> real list \<Rightarrow> training_row list" where
  "dataframe_align cols avgs =
     map (\<lambda>i. \<lparr>merged_cols = (if i < length cols then Some (cols ! i) else None),
                avg_previous_grade = (if i < length avgs then Some (avgs ! i) else None)\<rparr>)
         [0 ..< max (length cols) (length avgs)]"

text \<open>\<^verbatim>\<open>grades_df.groupby('student_id')['grade_point'].transform('mean')\<close>: one value per
  row of \<^verbatim>\<open>grades_df\<close>, the mean over all rows of that row's student.\<close>

definition student_avg_grades :: "grade list \<Rightarrow> real list" where
  "student_avg_grades gs =
     map (\<lambda>g. mean (map grade_point (filter (\<lambda>h. student_id h = student_id g) gs))) gs"

text \<open>The merges come first, so a table without rows ends the call before the group-by is
  reached.\<close>

definition prepare_training_data :: "entities \<Rightarrow> error + training_row list" where
  "prepare_training_data data =
     (case merged_rows data of
        Inl e \<Rightarrow> Inl e
      | Inr merged \<Rightarrow>
         (let avgs = student_avg_grades (grades data)
          in Inr (dataframe_align
                    (map (\<lambda>((g, s), c).
                       \<lparr>t_student_id = student_id g,
                        t_course_id = course_id g,
                        t_student_gpa = current_gpa s,
                        t_course_difficulty = difficulty_level c,
                        t_has_disability = astype_int (has_disability s),
                        t_credits = credits c,
                        t_actual_grade = grade_point g,
                        t_success = astype_int (grade_point g \<ge> 2.5)\<rparr>) merged)
                    avgs)))"

section \<open>Normalisation: \<^verbatim>\<open>DataPreprocessor.normalize_features\<close>\<close>

datatype column = NumCol "real list" | BoolCol "bool list" | ObjCol "string list"

type_synonym dataframe = "(string \<times> column) list"

record scaler =
  sc_mean :: "real list"
  sc_scale :: "real list"

text \<open>
  \<^verbatim>\<open>sklearn.preprocessing.StandardScaler\<close>: per column \<open>z = (x - u) / s\<close>, with \<open>u\<close> the mean
  of the column and \<open>s\<close> its population standard deviation, except that \<open>s\<close> is 1 for a
  column the scaler takes to be constant.  It takes a column of \<open>n\<close> values to be constant
  when its variance does not exceed \<open>n * eps * var + (n * mean * eps)\<^sup>2\<close>, the bound on the
  rounding error of the variance, \<open>eps\<close> being the machine epsilon of a double.  Fitting an
  array without columns or without rows is a \<^verbatim>\<open>ValueError\<close>.
\<close>

definition variance :: "real list \<Rightarrow> real" where
  "variance xs = mean (map (\<lambda>x. (x - mean xs)\<^sup>2) xs)"

definition eps :: real where
  "eps = 1 / 2 ^ 52"

definition is_constant_feature :: "real \<Rightarrow> real \<Rightarrow> nat \<Rightarrow> bool" where
  "is_constant_feature var mu n \<longleftrightarrow> var \<le> real n * eps * var + (real n * mu * eps)\<^sup>2"

definition scale_of :: "real list \<Rightarrow> real" where
  "scale_of xs =
     (if is_constant_feature (variance xs) (mean xs) (length xs) then 1 else sqrt (variance xs))"

definition standardize :: "real list \<Rightarrow> real list" where
  "standardize xs = map (\<lambda>x. (x - mean xs) / scale_of xs) xs"

definition scaler_fit :: "real list list \<Rightarrow> scaler" where
  "scaler_fit cols = \<lparr>sc_mean = map mean cols, sc_scale = map scale_of cols\<rparr>"

definition fit_transform :: "real list list \<Rightarrow> error + scaler \<times> real list list" where
  "fit_transform cols =
     (case cols of
        [] \<Rightarrow> Inl ValueError
      | c # _ \<Rightarrow> if c = [] then Inl ValueError
                 else Inr (scaler_fit cols, map standardize cols))"

text \<open>\<^verbatim>\<open>df.select_dtypes(include=[np.number])\<close>: the floating point and integer columns;
  boolean and object columns are left out.\<close>

fun select_numeric :: "dataframe \<Rightarrow> real list list" where
  "select_numeric [] = []"
| "select_numeric ((name, NumCol xs) # df) = xs # select_numeric df"
| "select_numeric (c # df) = select_numeric df"

text \<open>\<^verbatim>\<open>df[numeric_cols] = values\<close>: the numeric columns are overwritten in order.\<close>

fun assign_numeric :: "dataframe \<Rightarrow> real list list \<Rightarrow> dataframe" where
  "assign_numeric [] vs = []"
| "assign_numeric ((name, NumCol xs) # df) (v # vs) = (name, NumCol v) # assign_numeric df vs"
| "assign_numeric (c # df) vs = c # assign_numeric df vs"

text \<open>The scaler is a local of the function: only the frame is returned.\<close>

definition normalize_features :: "dataframe \<Rightarrow> error + dataframe" where
  "normalize_features df =
     (case fit_transform (select_numeric df) of
        Inl e \<Rightarrow> Inl e
      | Inr (scaler, transformed) \<Rightarrow> Inr (assign_numeric df transformed))"

section \<open>Ensemble trainers\<close>

text \<open>
  \<^verbatim>\<open>train_models\<close> is straight-line code over scikit-learn, joblib and json.  What those
  libraries compute is outside the repository, so a run is modelled by the sequence of
  library calls it makes and by a parameter \<open>lib\<close> that says, for each call, whether it
  returns (\<open>None\<close>) or raises (\<open>Some e\<close>).  The trainer object is a record of its model
  slots, the files it has written and the calls that have returned so far.  A call names
  the model it is made on and the split its data comes from: \<open>Fit f Train\<close> is
  \<^verbatim>\<open>f.fit(X_train, y_train)\<close>, \<open>Predict f Test\<close> is \<^verbatim>\<open>f.predict(X_test)\<close>,
  \<open>AccuracyScore f Test\<close> is \<^verbatim>\<open>accuracy_score(y_test, y_pred)\<close> on the predictions of \<open>f\<close>,
  \<open>CrossValScore f Train 5\<close> is \<^verbatim>\<open>cross_val_score(f, X_train, y_train, cv=5, scoring='f1')\<close>.
\<close>

datatype split = Train | Test

datatype slot_state = Unset | Unfitted | Fitted

type_synonym 'f snapshot = "(string \<times> 'f option \<times> string list) list"
  \<comment> \<open>the exported \<^verbatim>\<open>params\<close> dictionary: key, the model slot the entry is read from
      (\<open>None\<close> for an entry read from no model), and the entry's own keys\<close>

datatype 'f call =
    ScalerFitTransform
  | TrainTestSplit
  | Fit 'f split
  | Predict 'f split
  | PredictProba 'f split
  | AccuracyScore 'f split
  | PrecisionRecallFscoreSupport 'f split
  | F1Score 'f split
  | RocAucScore 'f split
  | CrossValScore 'f split nat
  | MeanSquaredError 'f split
  | MeanAbsoluteError 'f split
  | R2Score 'f split
  | ExportText 'f
  | FeatureImportances 'f
  | ConfusionMatrix 'f split
  | JoblibDump "'f option" string
  | JsonDump string "'f snapshot"
  | GenerateVisualizations

datatype 'f stmt =
    New 'f                 \<comment> \<open>\<^verbatim>\<open>self.slot = Estimator(...)\<close>\<close>
  | Call "'f call"         \<comment> \<open>a library call\<close>
  | ReadAttrs "'f list" "'f list"
      \<comment> \<open>attribute reads on model slots: of the first list attributes that exist once the
          model is fitted (\<^verbatim>\<open>coef_\<close>, \<^verbatim>\<open>feature_importances_\<close>, ...), of the second only
          constructor parameters (\<^verbatim>\<open>n_estimators\<close>, ...)\<close>

record 'f trainer =
  slot :: "'f \<Rightarrow> slot_state"
  trace :: "'f call list"
  saved_models :: "string list"
  exported :: "'f snapshot option"

text \<open>\<^verbatim>\<open>__init__\<close>: every model slot is \<^verbatim>\<open>None\<close>, nothing has been written.\<close>

definition init :: "'f trainer" where
  "init = \<lparr>slot = (\<lambda>_. Unset), trace = [], saved_models = [], exported = None\<rparr>"

fun effect :: "'f call \<Rightarrow> 'f trainer \<Rightarrow> 'f trainer" where
  "effect (Fit f sp) st = st\<lparr>slot := (slot st)(f := Fitted)\<rparr>"
| "effect (JoblibDump m path) st = st\<lparr>saved_models := saved_models st @ [path]\<rparr>"
| "effect (JsonDump path params) st = st\<lparr>exported := Some params\<rparr>"
| "effect c st = st"

fun exec :: "('f call \<Rightarrow> error option) \<Rightarrow> 'f stmt \<Rightarrow> 'f trainer \<Rightarrow> error + 'f trainer" where
  "exec lib (New f) st = Inr (st\<lparr>slot := (slot st)(f := Unfitted)\<rparr>)"
| "exec lib (Call c) st =
     (case lib c of
        Some e \<Rightarrow> Inl e
      | None \<Rightarrow> Inr (effect c (st\<lparr>trace := trace st @ [c]\<rparr>)))"
| "exec lib (ReadAttrs fitted params) st =
     (if list_all (\<lambda>f. slot st f = Fitted) fitted \<and> list_all (\<lambda>f. slot st f \<noteq> Unset) params
      then Inr st else Inl AttributeError)"

text \<open>Statements run in order; an exception ends the run and leaves the trainer as it
  was when the exception was raised.\<close>

fun run :: "('f call \<Rightarrow> error option) \<Rightarrow> 'f stmt list \<Rightarrow> 'f trainer \<Rightarrow> error option \<times> 'f trainer" where
  "run lib [] st = (None, st)"
| "run lib (s # ss) st =
     (case exec lib s st of
        Inl e \<Rightarrow> (Some e, st)
      | Inr st' \<Rightarrow> run lib ss st')"

text \<open>The dictionary \<^verbatim>\<open>train_models\<close> returns: its metric keys and \<^verbatim>\<open>samples_used\<close>.\<close>

record results =
  metric_keys :: "string list"
  samples_used :: nat

subsection \<open>\<^verbatim>\<open>PerformancePredictor\<close>\<close>

datatype perf_family =
  LogisticModel | RandomForestClassifier | GradientBoostingClassifier | RandomForestRegressor

definition perf_fit_and_evaluate :: "perf_family stmt list" where
  "perf_fit_and_evaluate =
     [Call ScalerFitTransform,
      Call TrainTestSplit,
      New LogisticModel,
      Call (Fit LogisticModel Train),
      Call (Predict LogisticModel Test),
      Call (PredictProba LogisticModel Test),
      Call (AccuracyScore LogisticModel Test),
      Call (PrecisionRecallFscoreSupport LogisticModel Test),
      Call (RocAucScore LogisticModel Test),
      Call (CrossValScore LogisticModel Train 5),
      New RandomForestClassifier,
      Call (Fit RandomForestClassifier Train),
      Call (Predict RandomForestClassifier Test),
      Call (PredictProba RandomForestClassifier Test),
      Call (AccuracyScore RandomForestClassifier Test),
      Call (PrecisionRecallFscoreSupport RandomForestClassifier Test),
      Call (RocAucScore RandomForestClassifier Test),
      Call (CrossValScore RandomForestClassifier Train 5),
      New GradientBoostingClassifier,
      Call (Fit GradientBoostingClassifier Train),
      Call (Predict GradientBoostingClassifier Test),
      Call (PredictProba GradientBoostingClassifier Test),
      Call (AccuracyScore GradientBoostingClassifier Test),
      Call (PrecisionRecallFscoreSupport GradientBoostingClassifier Test),
      Call (RocAucScore GradientBoostingClassifier Test),
      New RandomForestRegressor,
      Call (Fit RandomForestRegressor Train),
      Call (Predict RandomForestRegressor Test),
      Call (MeanSquaredError RandomForestRegressor Test),
      Call (MeanAbsoluteError RandomForestRegressor Test),
      Call (R2Score RandomForestRegressor Test),
      Call (FeatureImportances RandomForestClassifier),
      Call (ConfusionMatrix RandomForestClassifier Test)]"

definition perf_save_models :: "perf_family stmt list" where
  "perf_save_models =
     [Call (JoblibDump (Some LogisticModel) ''ml_models/saved_models/logistic_model.pkl''),
      Call (JoblibDump (Some RandomForestClassifier) ''ml_models/saved_models/rf_classifier.pkl''),
      Call (JoblibDump (Some GradientBoostingClassifier) ''ml_models/saved_models/gb_classifier.pkl''),
      Call (JoblibDump (Some RandomForestRegressor) ''ml_models/saved_models/rf_regressor.pkl''),
      Call (JoblibDump None ''ml_models/saved_models/scaler.pkl'')]"

definition perf_params :: "perf_family snapshot" where
  "perf_params =
     [(''metadata'', None,
         [''model_version'', ''training_samples'', ''feature_names'', ''trained_at'']),
      (''logistic_regression'', Some LogisticModel,
         [''coefficients'', ''intercept'', ''classes'']),
      (''random_forest_classifier'', Some RandomForestClassifier,
         [''n_estimators'', ''feature_importances'', ''max_depth'']),
      (''gradient_boosting_classifier'', Some GradientBoostingClassifier,
         [''n_estimators'', ''learning_rate'', ''max_depth'']),
      (''random_forest_regressor'', Some RandomForestRegressor,
         [''n_estimators'', ''feature_importances'', ''max_depth''])]"

definition perf_export_model_parameters :: "perf_family stmt list" where
  "perf_export_model_parameters =
     [ReadAttrs [LogisticModel, RandomForestClassifier, RandomForestRegressor]
                [GradientBoostingClassifier],
      Call (JsonDump ''ml_models/saved_models/model_parameters.json'' perf_params)]"

definition perf_body :: "perf_family stmt list" where
  "perf_body = perf_fit_and_evaluate @ perf_save_models @ perf_export_model_parameters
                 @ [Call GenerateVisualizations]"

definition perf_results :: "nat \<Rightarrow> results" where
  "perf_results n =
     \<lparr>metric_keys = [''logistic_accuracy'', ''logistic_roc_auc'', ''rf_classifier_accuracy'',
                     ''rf_classifier_roc_auc'', ''gb_classifier_accuracy'',
                     ''gb_classifier_roc_auc'', ''rf_regressor_rmse'', ''rf_regressor_mae'',
                     ''rf_regressor_r2''],
      samples_used = n\<rparr>"

text \<open>
  \<^verbatim>\<open>PerformancePredictor.train_models\<close>.  The outcome is \<open>Inl e\<close> for an exception that
  leaves the method (one raised while the features are assembled included), \<open>Inr None\<close>
  for the bare \<^verbatim>\<open>return\<close> and \<open>Inr (Some r)\<close> for the returned dictionary.
  \<^verbatim>\<open>_generate_visualizations\<close> is one call of the run like the others; in this class it
  indexes a freshly indexed series of probabilities by a mask that carries the index of
  the test labels, which pandas refuses unless the two indexes hold the same labels.
\<close>

definition perf_train_models ::
  "(perf_family call \<Rightarrow> error option) \<Rightarrow> entities \<Rightarrow> perf_family trainer
     \<Rightarrow> (error + results option) \<times> perf_family trainer" where
  "perf_train_models lib data st =
     (case prepare_performance_data data of
        Inl e \<Rightarrow> (Inl e, st)
      | Inr (features, target_grades, target_at_risk) \<Rightarrow>
          if length features < 10 then (Inr None, st)
          else (case run lib perf_body st of
                  (Some e, st') \<Rightarrow> (Inl e, st')
                | (None, st') \<Rightarrow> (Inr (Some (perf_results (length features))), st')))"

subsection \<open>\<^verbatim>\<open>CourseRecommender\<close>\<close>

datatype rec_family =
  KnnModel | DecisionTreeModel | RandomForestModel | AdaboostModel | NearestNeighbors

definition rec_fit_and_evaluate :: "rec_family stmt list" where
  "rec_fit_and_evaluate =
     [Call ScalerFitTransform,
      Call TrainTestSplit,
      New KnnModel,
      Call (Fit KnnModel Train),
      Call (Predict KnnModel Test),
      Call (PredictProba KnnModel Test),
      Call (AccuracyScore KnnModel Test),
      Call (F1Score KnnModel Test),
      Call (RocAucScore KnnModel Test),
      Call (CrossValScore KnnModel Train 5),
      New DecisionTreeModel,
      Call (Fit DecisionTreeModel Train),
      Call (Predict DecisionTreeModel Test),
      Call (PredictProba DecisionTreeModel Test),
      Call (AccuracyScore DecisionTreeModel Test),
      Call (F1Score DecisionTreeModel Test),
      Call (RocAucScore DecisionTreeModel Test),
      Call (CrossValScore DecisionTreeModel Train 5),
      Call (ExportText DecisionTreeModel),
      New RandomForestModel,
      Call (Fit RandomForestModel Train),
      Call (Predict RandomForestModel Test),
      Call (PredictProba RandomForestModel Test),
      Call (AccuracyScore RandomForestModel Test),
      Call (F1Score RandomForestModel Test),
      Call (RocAucScore RandomForestModel Test),
      New AdaboostModel,
      Call (Fit AdaboostModel Train),
      Call (Predict AdaboostModel Test),
      Call (PredictProba AdaboostModel Test),
      Call (AccuracyScore AdaboostModel Test),
      Call (F1Score AdaboostModel Test),
      Call (RocAucScore AdaboostModel Test),
      New NearestNeighbors,
      Call (Fit NearestNeighbors Train),
      Call (FeatureImportances RandomForestModel),
      Call (ConfusionMatrix DecisionTreeModel Test),
      Call (ConfusionMatrix RandomForestModel Test)]"

definition rec_save_models :: "rec_family stmt list" where
  "rec_save_models =
     [Call (JoblibDump (Some KnnModel) ''ml_models/saved_models/knn_model.pkl''),
      Call (JoblibDump (Some DecisionTreeModel) ''ml_models/saved_models/decision_tree_model.pkl''),
      Call (JoblibDump (Some RandomForestModel) ''ml_models/saved_models/random_forest_model.pkl''),
      Call (JoblibDump (Some AdaboostModel) ''ml_models/saved_models/adaboost_model.pkl''),
      Call (JoblibDump (Some NearestNeighbors) ''ml_models/saved_models/nearest_neighbors.pkl''),
      Call (JoblibDump None ''ml_models/saved_models/recommendation_scaler.pkl'')]"

definition rec_params :: "rec_family snapshot" where
  "rec_params =
     [(''metadata'', None, [''model_version'', ''feature_names'', ''trained_at'']),
      (''knn'', Some KnnModel, [''n_neighbors'', ''weights'', ''metric'']),
      (''decision_tree'', Some DecisionTreeModel,
         [''max_depth'', ''n_features'', ''n_classes'', ''feature_importances'',
          ''feature_names'', ''tree_rules'']),
      (''random_forest'', Some RandomForestModel,
         [''n_estimators'', ''feature_importances'', ''max_depth'']),
      (''adaboost'', Some AdaboostModel, [''n_estimators'', ''learning_rate''])]"

definition rec_export_model_parameters :: "rec_family stmt list" where
  "rec_export_model_parameters =
     [ReadAttrs [DecisionTreeModel, RandomForestModel] [KnnModel, AdaboostModel],
      Call (JsonDump ''ml_models/saved_models/recommendation_parameters.json'' rec_params)]"

definition rec_body :: "rec_family stmt list" where
  "rec_body = rec_fit_and_evaluate @ rec_save_models @ rec_export_model_parameters
                @ [Call GenerateVisualizations]"

definition rec_results :: "nat \<Rightarrow> results" where
  "rec_results n =
     \<lparr>metric_keys = [''knn_accuracy'', ''knn_f1'', ''knn_roc_auc'',
                     ''decision_tree_accuracy'', ''decision_tree_f1'', ''decision_tree_roc_auc'',
                     ''random_forest_accuracy'', ''random_forest_f1'', ''random_forest_roc_auc'',
                     ''adaboost_accuracy'', ''adaboost_f1'', ''adaboost_roc_auc''],
      samples_used = n\<rparr>"

definition rec_train_models ::
  "(rec_family call \<Rightarrow> error option) \<Rightarrow> entities \<Rightarrow> rec_family trainer
     \<Rightarrow> (error + results option) \<times> rec_family trainer" where
  "rec_train_models lib data st =
     (case prepare_training_data data of
        Inl e \<Rightarrow> (Inl e, st)
      | Inr training_data \<Rightarrow>
          if length training_data < 10 then (Inr None, st)
          else (case run lib rec_body st of
                  (Some e, st') \<Rightarrow> (Inl e, st')
                | (None, st') \<Rightarrow> (Inr (Some (rec_results (length training_data))), st')))"

section \<open>Notions used to state the properties\<close>

text \<open>The student, course and grade tables each hold a row.\<close>

definition populated :: "entities \<Rightarrow> bool" where
  "populated data \<longleftrightarrow> students data \<noteq> [] \<and> courses data \<noteq> [] \<and> grades data \<noteq> []"

text \<open>The joined grade rows: grades with their students, then with their courses.\<close>

definition joined :: "entities \<Rightarrow> ((grade \<times> student) \<times> course) list" where
  "joined data =
     inner_join (inner_join (grades data) (students data) student_id s_id)
                (courses data) (\<lambda>(g, s). course_id g) c_id"

text \<open>A grade resolves when both of its foreign keys name an existing row.\<close>

definition resolves :: "entities \<Rightarrow> grade \<Rightarrow> bool" where
  "resolves data g \<longleftrightarrow> student_id g \<in> set (map s_id (students data))
                      \<and> course_id g \<in> set (map c_id (courses data))"

text \<open>The record an id names, where ids are distinct and the id exists.\<close>

definition student_of :: "entities \<Rightarrow> string \<Rightarrow> student" where
  "student_of data i = the (find (\<lambda>s. s_id s = i) (students data))"

definition course_of :: "entities \<Rightarrow> string \<Rightarrow> course" where
  "course_of data i = the (find (\<lambda>c. c_id c = i) (courses data))"

text \<open>The feature row of a grade, in the words of the specification: the grade point
  average and disability flag of its student, the difficulty and credits of its course,
  its own attendance rate.\<close>

definition feature_of :: "entities \<Rightarrow> grade \<Rightarrow> feature_row" where
  "feature_of data g =
     \<lparr>f_current_gpa = current_gpa (student_of data (student_id g)),
      f_course_difficulty = difficulty_level (course_of data (course_id g)),
      f_attendance_rate = attendance_rate g,
      f_has_disability = (if has_disability (student_of data (student_id g)) then 1 else 0),
      f_credits = credits (course_of data (course_id g))\<rparr>"

text \<open>A student id has history when some grade carries it.\<close>

definition has_history :: "entities \<Rightarrow> string \<Rightarrow> bool" where
  "has_history data i \<longleftrightarrow> i \<in> set (map student_id (grades data))"

text \<open>The grade points recorded for one student id, and the course ids they are for.\<close>

definition history :: "entities \<Rightarrow> string \<Rightarrow> real list" where
  "history data i = map grade_point (filter (\<lambda>g. student_id g = i) (grades data))"



text \<open>The model a call is made on; none for the calls that prepare the data or write
  files.\<close>

fun subject :: "'f call \<Rightarrow> 'f option" where
  "subject (Fit f sp) = Some f"
| "subject (Predict f sp) = Some f"
| "subject (PredictProba f sp) = Some f"
| "subject (AccuracyScore f sp) = Some f"
| "subject (PrecisionRecallFscoreSupport f sp) = Some f"
| "subject (F1Score f sp) = Some f"
| "subject (RocAucScore f sp) = Some f"
| "subject (CrossValScore f sp k) = Some f"
| "subject (MeanSquaredError f sp) = Some f"
| "subject (MeanAbsoluteError f sp) = Some f"
| "subject (R2Score f sp) = Some f"
| "subject (ExportText f) = Some f"
| "subject (FeatureImportances f) = Some f"
| "subject (ConfusionMatrix f sp) = Some f"
| "subject c = None"

text \<open>The calls of a trace made on one model, in order.\<close>

definition calls_on :: "'f \<Rightarrow> 'f call list \<Rightarrow> 'f call list" where
  "calls_on f tr = filter (\<lambda>c. subject c = Some f) tr"

text \<open>The library calls among a list of statements, the files they dump, and the model
  slots an exported dictionary reads.\<close>

definition calls_of :: "'f stmt list \<Rightarrow> 'f call list" where
  "calls_of ss = List.map_filter (\<lambda>s. case s of Call c \<Rightarrow> Some c | _ \<Rightarrow> None) ss"

definition dumps_of :: "'f stmt list \<Rightarrow> string list" where
  "dumps_of ss =
     List.map_filter (\<lambda>s. case s of Call (JoblibDump m p) \<Rightarrow> Some p | _ \<Rightarrow> None) ss"

definition snapshot_families :: "'f snapshot \<Rightarrow> 'f list" where
  "snapshot_families snap = List.map_filter (\<lambda>(key, src, fields). src) snap"

definition writes_file :: "'f stmt \<Rightarrow> bool" where
  "writes_file s =
     (case s of Call (JoblibDump m p) \<Rightarrow> True | Call (JsonDump p d) \<Rightarrow> True | _ \<Rightarrow> False)"

definition dumps_json :: "'f stmt \<Rightarrow> bool" where
  "dumps_json s = (case s of Call (JsonDump p d) \<Rightarrow> True | _ \<Rightarrow> False)"

definition on_model :: "'f stmt \<Rightarrow> bool" where
  "on_model s = (case s of Call c \<Rightarrow> subject c \<noteq> None | _ \<Rightarrow> False)"

text \<open>The slots after a list of statements that all returned.\<close>

fun slots_after :: "'f stmt list \<Rightarrow> ('f \<Rightarrow> slot_state) \<Rightarrow> ('f \<Rightarrow> slot_state)" where
  "slots_after [] sl = sl"
| "slots_after (New f # ss) sl = slots_after ss (sl(f := Unfitted))"
| "slots_after (Call (Fit f sp) # ss) sl = slots_after ss (sl(f := Fitted))"
| "slots_after (s # ss) sl = slots_after ss sl"

section \<open>Example inputs\<close>

definition alice :: student where
  "alice = \<lparr>s_id = ''s1'', current_gpa = 3, major = ''cs'', has_disability = True\<rparr>"

definition alice_again :: student where
  "alice_again = \<lparr>s_id = ''s1'', current_gpa = 1, major = ''art'', has_disability = False\<rparr>"

definition bob :: student where
  "bob = \<lparr>s_id = ''s2'', current_gpa = 2, major = ''cs'', has_disability = False\<rparr>"

definition algebra :: course where
  "algebra = \<lparr>c_id = ''c1'', difficulty_level = 2, credits = 3\<rparr>"

definition biology :: course where
  "biology = \<lparr>c_id = ''c2'', difficulty_level = 1, credits = 4\<rparr>"

definition grade_of :: "string \<Rightarrow> string \<Rightarrow> real \<Rightarrow> grade" where
  "grade_of s c p = \<lparr>student_id = s, course_id = c, grade_point = p, attendance_rate = 80\<rparr>"

text \<open>One grade of an unknown student, followed by one grade of a known one.\<close>

definition orphan_entities :: entities where
  "orphan_entities =
     \<lparr>students = [alice], courses = [algebra],
      grades = [grade_of ''zz'' ''c1'' 4, grade_of ''s1'' ''c1'' 1],
      preferences = [\<lparr>p_student_id = ''s1''\<rparr>]\<rparr>"

text \<open>Two students with history in one course each, two courses.\<close>

definition small_entities :: entities where
  "small_entities =
     \<lparr>students = [alice, bob], courses = [algebra, biology],
      grades = [grade_of ''s1'' ''c1'' 3, grade_of ''s1'' ''c1'' 4, grade_of ''s2'' ''c2'' 1],
      preferences = [\<lparr>p_student_id = ''s1''\<rparr>]\<rparr>"

text \<open>The same id on two student records, neither with a grade; a third student with one.\<close>

definition duplicate_entities :: entities where
  "duplicate_entities =
     \<lparr>students = [alice, alice_again, bob], courses = [algebra, biology],
      grades = [grade_of ''s2'' ''c2'' 2],
      preferences = [\<lparr>p_student_id = ''s2''\<rparr>]\<rparr>"

text \<open>Two students, only the first with grades.\<close>

definition lonely_entities :: entities where
  "lonely_entities =
     \<lparr>students = [alice, bob], courses = [algebra],
      grades = [grade_of ''s1'' ''c1'' 3],
      preferences = [\<lparr>p_student_id = ''s1''\<rparr>]\<rparr>"

text \<open>A grade for a course while the course table is empty.\<close>

definition no_courses_entities :: entities where
  "no_courses_entities =
     \<lparr>students = [alice], courses = [],
      grades = [grade_of ''s1'' ''c1'' 1],
      preferences = [\<lparr>p_student_id = ''s1''\<rparr>]\<rparr>"

text \<open>A student and a course, and no grade at all.\<close>

definition no_grades_entities :: entities where
  "no_grades_entities =
     \<lparr>students = [alice], courses = [algebra], grades = [],
      preferences = [\<lparr>p_student_id = ''s1''\<rparr>]\<rparr>"

text \<open>The same id on two student records, and no preference record at all.\<close>

definition no_preferences_entities :: entities where
  "no_preferences_entities =
     \<lparr>students = [alice, alice_again], courses = [algebra, biology],
      grades = [grade_of ''s1'' ''c1'' 3],
      preferences = []\<rparr>"

text \<open>Nine grades of an unknown student and one grade that resolves.\<close>

definition nine_orphans_entities :: entities where
  "nine_orphans_entities =
     \<lparr>students = [alice], courses = [algebra],
      grades = replicate 9 (grade_of ''zz'' ''c1'' 3) @ [grade_of ''s1'' ''c1'' 3],
      preferences = [\<lparr>p_student_id = ''s1''\<rparr>]\<rparr>"

text \<open>Ten grades, all of them resolving, all with the same grade point.\<close>

definition ten_entities :: entities where
  "ten_entities =
     \<lparr>students = [alice], courses = [algebra],
      grades = replicate 10 (grade_of ''s1'' ''c1'' 3),
      preferences = [\<lparr>p_student_id = ''s1''\<rparr>]\<rparr>"

text \<open>Twenty grades, all of them resolving: each of two students has grade points on
  both sides of the thresholds 2.0 and 2.5, ten grades on either side in all.\<close>

definition twenty_entities :: entities where
  "twenty_entities =
     \<lparr>students = [alice, bob], courses = [algebra, biology],
      grades = replicate 7 (grade_of ''s1'' ''c1'' 3.5) @ replicate 3 (grade_of ''s1'' ''c2'' 1)
             @ replicate 7 (grade_of ''s2'' ''c2'' 1) @ replicate 3 (grade_of ''s2'' ''c1'' 3.5),
      preferences = [\<lparr>p_student_id = ''s1''\<rparr>]\<rparr>"

text \<open>Library behaviours: every call returns; every call returns except one.\<close>

definition lib_ok :: "'f call \<Rightarrow> error option" where
  "lib_ok c = None"

definition lib_failing :: "'f call \<Rightarrow> 'f call \<Rightarrow> error option" where
  "lib_failing bad c = (if c = bad then Some LibraryError else None)"

text \<open>Frames for \<^verbatim>\<open>normalize_features\<close>.\<close>

definition frame_a :: dataframe where
  "frame_a = [(''x'', NumCol [1, 3]), (''label'', ObjCol [''a'', ''b''])]"

definition frame_b :: dataframe where
  "frame_b = [(''x'', NumCol [11, 13]), (''label'', ObjCol [''a'', ''b''])]"

definition frame_const :: dataframe where
  "frame_const = [(''x'', NumCol [5, 5])]"

definition frame_large :: dataframe where
  "frame_large = [(''x'', NumCol [10 ^ 16, 10 ^ 16 + 4])]"

section \<open>Properties of the feature assembler\<close>

lemma column_DataFrame:
  "column (DataFrame rows) = (if rows = [] then Inl KeyError else Inr rows)"
  by (simp add: column_def DataFrame_def)

lemma merged_rows_populated:
  assumes "populated data"
  shows "merged_rows data = Inr (joined data)"
  using assms by (simp add: populated_def merged_rows_def merge_def DataFrame_def joined_def)

lemma merged_rows_unpopulated:
  assumes "\<not> populated data"
  shows "merged_rows data = Inl KeyError"
  using assms by (auto simp: populated_def merged_rows_def merge_def DataFrame_def)

lemma inner_join_length:
  "length (inner_join left right lk rk) = (\<Sum>l\<leftarrow>left. length (filter (\<lambda>r. rk r = lk l) right))"
  by (simp add: inner_join_def length_concat comp_def)

lemma filter_distinct_key:
  assumes "distinct (map k xs)"
  shows "filter (\<lambda>r. k r = v) xs = (if v \<in> set (map k xs) then [the (find (\<lambda>r. k r = v) xs)] else [])"
  using assms by (induction xs) (auto simp: image_iff)

lemma inner_join_distinct:
  assumes "distinct (map rk right)"
  shows "inner_join left right lk rk =
         map (\<lambda>l. (l, the (find (\<lambda>r. rk r = lk l) right)))
             (filter (\<lambda>l. lk l \<in> set (map rk right)) left)"
  unfolding inner_join_def using assms
  by (induction left) (simp_all add: filter_distinct_key)

lemma joined_distinct:
  assumes "distinct (map s_id (students data))" and "distinct (map c_id (courses data))"
  shows "joined data =
         map (\<lambda>g. ((g, student_of data (student_id g)), course_of data (course_id g)))
             (filter (resolves data) (grades data))"
  unfolding joined_def inner_join_distinct [OF assms(2)] inner_join_distinct [OF assms(1)]
  by (simp add: filter_map comp_def case_prod_beta student_of_def course_of_def
        resolves_def [abs_def])



section \<open>Training pairs when every grade resolves\<close>

lemma prepare_training_data_length:
  assumes "populated data"
  shows "\<exists>rows. prepare_training_data data = Inr rows
           \<and> length rows = max (length (joined data)) (length (grades data))"
  by (simp add: prepare_training_data_def merged_rows_populated [OF assms] dataframe_align_def
        student_avg_grades_def Let_def)

lemma prepare_training_data_aligned:
  assumes "distinct (map s_id (students data))" and "distinct (map c_id (courses data))"
      and "populated data"
      and "\<forall>g \<in> set (grades data). resolves data g"
      and "i < length (grades data)"
  shows "\<exists>rows. prepare_training_data data = Inr rows
       \<and> length rows = length (grades data)
       \<and> map_option t_student_id (merged_cols (rows ! i)) = Some (student_id (grades data ! i))
       \<and> map_option t_success (merged_cols (rows ! i))
           = Some (if grade_point (grades data ! i) \<ge> 2.5 then 1 else 0)
       \<and> avg_previous_grade (rows ! i)
           = Some (mean (history data (student_id (grades data ! i))))"
proof -
  from assms(4) have "filter (resolves data) (grades data) = grades data"
    by (simp add: filter_id_conv)
  with joined_distinct [OF assms(1,2)]
  have j: "joined data =
         map (\<lambda>g. ((g, student_of data (student_id g)), course_of data (course_id g)))
             (grades data)"
    by simp
  show ?thesis using assms(5)
    by (simp add: prepare_training_data_def merged_rows_populated [OF assms(3)] j
          dataframe_align_def student_avg_grades_def Let_def astype_int_def history_def comp_def)
qed

section \<open>Properties of the scaler\<close>

lemma sum_list_divide_const:
  "(\<Sum>x\<leftarrow>xs. f x / c) = (\<Sum>x\<leftarrow>xs. f x) / (c::real)"
  by (induction xs) (simp_all add: add_divide_distrib)

lemma sum_list_minus_const:
  "(\<Sum>x\<leftarrow>xs. x - m) = sum_list xs - real (length xs) * (m::real)"
  by (induction xs) (simp_all add: algebra_simps)

lemma sum_centered:
  assumes "xs \<noteq> []"
  shows "(\<Sum>x\<leftarrow>xs. x - mean xs) = 0"
  using assms by (simp add: sum_list_minus_const mean_def)

lemma mean_standardize:
  assumes "xs \<noteq> []"
  shows "mean (standardize xs) = 0"
proof -
  have "sum_list (standardize xs) = (\<Sum>x\<leftarrow>xs. x - mean xs) / scale_of xs"
    by (simp add: standardize_def comp_def sum_list_divide_const)
  with sum_centered [OF assms] show ?thesis by (simp add: mean_def)
qed

lemma variance_nonneg: "0 \<le> variance xs"
proof -
  have "0 \<le> (\<Sum>x\<leftarrow>xs. (x - mean xs)\<^sup>2)"
    by (rule sum_list_nonneg) auto
  then show ?thesis by (simp add: variance_def mean_def [of "map _ xs"])
qed

lemma not_constant_positive:
  assumes "\<not> is_constant_feature (variance xs) (mean xs) (length xs)"
  shows "0 < variance xs"
proof -
  have "0 \<le> real (length xs) * eps * variance xs + (real (length xs) * mean xs * eps)\<^sup>2"
    using variance_nonneg [of xs] by (simp add: eps_def)
  with assms show ?thesis by (simp add: is_constant_feature_def)
qed

lemma variance_standardize:
  assumes "xs \<noteq> []" and "\<not> is_constant_feature (variance xs) (mean xs) (length xs)"
  shows "variance (standardize xs) = 1"
proof -
  let ?s = "sqrt (variance xs)"
  from assms(2) have s: "scale_of xs = ?s" by (simp add: scale_of_def)
  have s2: "?s\<^sup>2 = variance xs" using variance_nonneg [of xs] by simp
  have "variance (standardize xs) = mean (map (\<lambda>y. y\<^sup>2) (standardize xs))"
    unfolding variance_def [of "standardize xs"] mean_standardize [OF assms(1)] by simp
  also have "\<dots> = mean (map (\<lambda>x. (x - mean xs)\<^sup>2 / ?s\<^sup>2) xs)"
    by (simp add: standardize_def s comp_def power_divide)
  also have "\<dots> = variance xs / ?s\<^sup>2"
    by (simp add: mean_def variance_def sum_list_divide_const)
  also have "\<dots> = 1" using not_constant_positive [OF assms(2)] s2 by simp
  finally show ?thesis .
qed

lemma standardize_constant:
  assumes "is_constant_feature (variance xs) (mean xs) (length xs)"
  shows "standardize xs = map (\<lambda>x. x - mean xs) xs"
  using assms by (simp add: standardize_def scale_of_def)

lemma assign_select:
  "assign_numeric df (map f (select_numeric df)) =
     map (\<lambda>(name, col). (name, case col of NumCol xs \<Rightarrow> NumCol (f xs) | _ \<Rightarrow> col)) df"
  by (induction df rule: select_numeric.induct) simp_all

section \<open>Properties of the similarity engine\<close>

lemma similar_entry_empty:
  "similar_entry gs sid t s = [] \<longleftrightarrow>
     (s_id s = sid \<or> filter (\<lambda>g. student_id g = s_id s) gs = [])"
  by (simp add: similar_entry_def Let_def)

lemma sort_values_desc_Nil: "sort_values_desc rows = [] \<longleftrightarrow> rows = []"
proof -
  have i: "insert_desc x ys \<noteq> []" for x ys by (cases ys) auto
  show ?thesis by (cases rows) (simp_all add: sort_values_desc_def i)
qed

lemma has_history_filter:
  "has_history data i \<longleftrightarrow> filter (\<lambda>g. student_id g = i) (grades data) \<noteq> []"
  by (auto simp: has_history_def filter_empty_conv)

section \<open>Properties of a run\<close>

lemma run_append:
  "run lib (a @ b) st =
     (case run lib a st of (Some e, st') \<Rightarrow> (Some e, st') | (None, st') \<Rightarrow> run lib b st')"
  by (induction a arbitrary: st) (auto split: sum.splits)

lemma exec_no_write:
  assumes "\<not> writes_file s" and "exec lib s st = Inr st'"
  shows "saved_models st' = saved_models st \<and> exported st' = exported st"
proof (cases s)
  case (Call c)
  with assms show ?thesis
    by (cases c) (auto simp: writes_file_def split: option.splits)
qed (use assms in \<open>auto split: if_splits\<close>)

lemma run_no_write:
  assumes "\<forall>s \<in> set ss. \<not> writes_file s"
  shows "saved_models (snd (run lib ss st)) = saved_models st
       \<and> exported (snd (run lib ss st)) = exported st"
  using assms
proof (induction ss arbitrary: st)
  case Nil
  show ?case by simp
next
  case (Cons s ss)
  show ?case
  proof (cases "exec lib s st")
    case (Inl e)
    then show ?thesis by simp
  next
    case (Inr st')
    with Cons.prems exec_no_write [of s lib st st'] Cons.IH [of st'] show ?thesis by simp
  qed
qed

lemma run_raises:
  assumes "Call c \<in> set ss" and "lib c \<noteq> None"
  shows "fst (run lib ss st) \<noteq> None"
  using assms
proof (induction ss arbitrary: st)
  case Nil
  then show ?case by simp
next
  case (Cons s ss)
  show ?case
  proof (cases "exec lib s st")
    case (Inl e)
    then show ?thesis by simp
  next
    case (Inr st')
    with Cons.prems have "s \<noteq> Call c" by (auto split: option.splits)
    with Cons.prems Cons.IH [of st'] Inr show ?thesis by simp
  qed
qed

lemma exec_trace:
  assumes "exec lib s st = Inr st'"
  shows "trace st' = trace st @ calls_of [s]"
proof (cases s)
  case (Call c)
  with assms show ?thesis
    by (cases c) (auto simp: calls_of_def map_filter_simps split: option.splits)
qed (use assms in \<open>auto simp: calls_of_def map_filter_simps split: if_splits\<close>)

lemma calls_of_Cons: "calls_of (s # ss) = calls_of [s] @ calls_of ss"
  by (cases s) (simp_all add: calls_of_def map_filter_simps)

lemma run_trace:
  assumes "run lib ss st = (None, st')"
  shows "trace st' = trace st @ calls_of ss"
  using assms
proof (induction ss arbitrary: st)
  case Nil
  then show ?case by (simp add: calls_of_def map_filter_simps)
next
  case (Cons s ss)
  from Cons.prems obtain st1 where e: "exec lib s st = Inr st1" and r: "run lib ss st1 = (None, st')"
    by (auto split: sum.splits)
  from exec_trace [OF e] Cons.IH [OF r] show ?case
    by (simp add: calls_of_Cons [of s ss])
qed

lemma exec_slots:
  assumes "exec lib s st = Inr st'"
  shows "slots_after (s # ss) (slot st) = slots_after ss (slot st')"
proof (cases s)
  case (Call c)
  with assms show ?thesis
    by (cases c) (auto split: option.splits)
qed (use assms in \<open>auto split: if_splits\<close>)

lemma run_slots:
  assumes "run lib ss st = (None, st')"
  shows "slot st' = slots_after ss (slot st)"
  using assms
proof (induction ss arbitrary: st)
  case Nil
  then show ?case by simp
next
  case (Cons s ss)
  from Cons.prems obtain st1 where e: "exec lib s st = Inr st1" and r: "run lib ss st1 = (None, st')"
    by (auto split: sum.splits)
  from exec_slots [OF e, of ss] Cons.IH [OF r] show ?case by simp
qed

lemma perf_prefix_no_write: "\<forall>s \<in> set perf_fit_and_evaluate. \<not> writes_file s"
  by (simp add: perf_fit_and_evaluate_def writes_file_def)

lemma rec_prefix_no_write: "\<forall>s \<in> set rec_fit_and_evaluate. \<not> writes_file s"
  by (simp add: rec_fit_and_evaluate_def writes_file_def)

lemma perf_fit_in_body: "Call (Fit f Train) \<in> set perf_fit_and_evaluate"
  by (cases f) (simp_all add: perf_fit_and_evaluate_def)

lemma rec_fit_in_body: "Call (Fit f Train) \<in> set rec_fit_and_evaluate"
  by (cases f) (simp_all add: rec_fit_and_evaluate_def)

lemma run_prefix_raises:
  assumes "Call c \<in> set pre" and "lib c \<noteq> None" and "\<forall>s \<in> set pre. \<not> writes_file s"
  shows "\<exists>e st'. run lib (pre @ post) st = (Some e, st')
           \<and> saved_models st' = saved_models st \<and> exported st' = exported st"
proof -
  obtain r st' where r: "run lib pre st = (r, st')" by (cases "run lib pre st")
  with run_raises [of c pre lib st] assms(1,2) obtain e where e: "r = Some e" by auto
  from run_no_write [OF assms(3), of lib st] r
  have "saved_models st' = saved_models st \<and> exported st' = exported st" by simp
  with r e show ?thesis by (simp add: run_append)
qed

lemma exec_exported:
  assumes "\<not> dumps_json s" and "exec lib s st = Inr st'"
  shows "exported st' = exported st"
proof (cases s)
  case (Call c)
  with assms show ?thesis
    by (cases c) (auto simp: dumps_json_def split: option.splits)
qed (use assms in \<open>auto split: if_splits\<close>)

lemma run_exported:
  assumes "\<forall>s \<in> set ss. \<not> dumps_json s"
  shows "exported (snd (run lib ss st)) = exported st"
  using assms
proof (induction ss arbitrary: st)
  case Nil
  show ?case by simp
next
  case (Cons s ss)
  show ?case
  proof (cases "exec lib s st")
    case (Inl e)
    then show ?thesis by simp
  next
    case (Inr st')
    with Cons.prems exec_exported [of s lib st st'] Cons.IH [of st'] show ?thesis by simp
  qed
qed

lemma exec_saved:
  assumes "exec lib s st = Inr st'"
  shows "saved_models st' = saved_models st @ dumps_of [s]"
proof (cases s)
  case (Call c)
  with assms show ?thesis
    by (cases c) (auto simp: dumps_of_def map_filter_simps split: option.splits)
qed (use assms in \<open>auto simp: dumps_of_def map_filter_simps split: if_splits\<close>)

lemma dumps_of_Cons: "dumps_of (s # ss) = dumps_of [s] @ dumps_of ss"
  by (simp add: dumps_of_def map_filter_simps split: option.splits)

lemma run_saved:
  assumes "run lib ss st = (None, st')"
  shows "saved_models st' = saved_models st @ dumps_of ss"
  using assms
proof (induction ss arbitrary: st)
  case Nil
  then show ?case by (simp add: dumps_of_def map_filter_simps)
next
  case (Cons s ss)
  from Cons.prems obtain st1 where e: "exec lib s st = Inr st1" and r: "run lib ss st1 = (None, st')"
    by (auto split: sum.splits)
  from exec_saved [OF e] Cons.IH [OF r] show ?case
    by (simp add: dumps_of_Cons [of s ss])
qed

text \<open>A run that has written the snapshot has passed everything before the write.\<close>

lemma run_reaches_export:
  assumes "exported st = None"
      and "\<forall>s \<in> set pre. \<not> dumps_json s"
      and "exported (snd (run lib (pre @ [Call (JsonDump path params), Call GenerateVisualizations]) st))
             = Some snap"
  shows "snap = params
       \<and> slot (snd (run lib (pre @ [Call (JsonDump path params), Call GenerateVisualizations]) st))
           = slots_after pre (slot st)
       \<and> saved_models
             (snd (run lib (pre @ [Call (JsonDump path params), Call GenerateVisualizations]) st))
           = saved_models st @ dumps_of pre"
proof -
  obtain r s1 where r: "run lib pre st = (r, s1)" by (cases "run lib pre st")
  from run_exported [OF assms(2), of lib st] r assms(1) have x: "exported s1 = None" by simp
  have n: "r = None"
  proof (cases r)
    case (Some e)
    with r x assms(3) show ?thesis by (simp add: run_append)
  qed
  from run_slots [of lib pre st s1] r n have sl: "slot s1 = slots_after pre (slot st)" by simp
  from run_saved [of lib pre st s1] r n
  have sv: "saved_models s1 = saved_models st @ dumps_of pre" by simp
  from assms(3) r n x sl sv show ?thesis
    by (auto simp: run_append split: option.splits)
qed

lemma perf_pre_no_json:
  "\<forall>s \<in> set (perf_fit_and_evaluate @ perf_save_models
       @ [ReadAttrs [LogisticModel, RandomForestClassifier, RandomForestRegressor]
                    [GradientBoostingClassifier]]). \<not> dumps_json s"
  by (simp add: perf_fit_and_evaluate_def perf_save_models_def dumps_json_def)

lemma rec_pre_no_json:
  "\<forall>s \<in> set (rec_fit_and_evaluate @ rec_save_models
       @ [ReadAttrs [DecisionTreeModel, RandomForestModel] [KnnModel, AdaboostModel]]).
     \<not> dumps_json s"
  by (simp add: rec_fit_and_evaluate_def rec_save_models_def dumps_json_def)

lemma perf_body_split:
  "perf_body = (perf_fit_and_evaluate @ perf_save_models
       @ [ReadAttrs [LogisticModel, RandomForestClassifier, RandomForestRegressor]
                    [GradientBoostingClassifier]])
     @ [Call (JsonDump ''ml_models/saved_models/model_parameters.json'' perf_params),
        Call GenerateVisualizations]"
  by (simp add: perf_body_def perf_export_model_parameters_def)

lemma rec_body_split:
  "rec_body = (rec_fit_and_evaluate @ rec_save_models
       @ [ReadAttrs [DecisionTreeModel, RandomForestModel] [KnnModel, AdaboostModel]])
     @ [Call (JsonDump ''ml_models/saved_models/recommendation_parameters.json'' rec_params),
        Call GenerateVisualizations]"
  by (simp add: rec_body_def rec_export_model_parameters_def)

lemma perf_slots_after:
  "slots_after (perf_fit_and_evaluate @ perf_save_models
       @ [ReadAttrs [LogisticModel, RandomForestClassifier, RandomForestRegressor]
                    [GradientBoostingClassifier]]) sl f = Fitted"
  by (cases f) (simp_all add: perf_fit_and_evaluate_def perf_save_models_def)

lemma rec_slots_after:
  "slots_after (rec_fit_and_evaluate @ rec_save_models
       @ [ReadAttrs [DecisionTreeModel, RandomForestModel] [KnnModel, AdaboostModel]]) sl f = Fitted"
  by (cases f) (simp_all add: rec_fit_and_evaluate_def rec_save_models_def)

lemma perf_train_models_state:
  "snd (perf_train_models lib data st) =
     (if populated data \<and> 10 \<le> length (joined data) then snd (run lib perf_body st) else st)"
  by (cases "populated data")
     (auto simp: perf_train_models_def prepare_performance_data_def merged_rows_populated
        merged_rows_unpopulated Let_def split: prod.splits option.splits)

lemma rec_train_models_state:
  "snd (rec_train_models lib data st) =
     (if populated data \<and> 10 \<le> max (length (joined data)) (length (grades data))
      then snd (run lib rec_body st) else st)"
  by (cases "populated data")
     (auto simp: rec_train_models_def prepare_training_data_def merged_rows_populated
        merged_rows_unpopulated dataframe_align_def student_avg_grades_def Let_def
        split: prod.splits option.splits)

text \<open>Statements that are not calls on a model leave the calls on every model as they
  were, whether they return or raise.\<close>

lemma exec_calls_on:
  assumes "\<not> on_model s" and "exec lib s st = Inr st'"
  shows "calls_on f (trace st') = calls_on f (trace st)"
proof (cases s)
  case (Call c)
  with assms show ?thesis
    by (cases c) (auto simp: on_model_def calls_on_def split: option.splits)
qed (use assms in \<open>auto split: if_splits\<close>)

lemma run_calls_on:
  assumes "\<forall>s \<in> set ss. \<not> on_model s"
  shows "calls_on f (trace (snd (run lib ss st))) = calls_on f (trace st)"
  using assms
proof (induction ss arbitrary: st)
  case Nil
  show ?case by simp
next
  case (Cons s ss)
  show ?case
  proof (cases "exec lib s st")
    case (Inl e)
    then show ?thesis by simp
  next
    case (Inr st')
    with Cons.prems exec_calls_on [of s lib st st' f] Cons.IH [of st'] show ?thesis by simp
  qed
qed

text \<open>A run that has written a model file has passed everything before the first dump.\<close>

lemma run_reaches_save:
  assumes "saved_models st = []"
      and "\<forall>s \<in> set pre. \<not> writes_file s"
      and "\<forall>s \<in> set post. \<not> on_model s"
      and "saved_models (snd (run lib (pre @ post) st)) \<noteq> []"
      and "trace st = []"
  shows "calls_on f (trace (snd (run lib (pre @ post) st))) = calls_on f (calls_of pre)"
proof -
  obtain r s1 where r: "run lib pre st = (r, s1)" by (cases "run lib pre st")
  from run_no_write [OF assms(2), of lib st] r assms(1) have x: "saved_models s1 = []" by simp
  have n: "r = None"
  proof (cases r)
    case (Some e)
    with r x assms(4) show ?thesis by (simp add: run_append)
  qed
  from run_trace [of lib pre st s1] r n assms(5) have t: "trace s1 = calls_of pre" by simp
  from r n have "run lib (pre @ post) st = run lib post s1" by (simp add: run_append)
  with run_calls_on [OF assms(3), of f lib s1] t show ?thesis by simp
qed

lemma rec_dumps:
  "dumps_of (rec_fit_and_evaluate @ rec_save_models
       @ [ReadAttrs [DecisionTreeModel, RandomForestModel] [KnnModel, AdaboostModel]]) =
     [''ml_models/saved_models/knn_model.pkl'',
      ''ml_models/saved_models/decision_tree_model.pkl'',
      ''ml_models/saved_models/random_forest_model.pkl'',
      ''ml_models/saved_models/adaboost_model.pkl'',
      ''ml_models/saved_models/nearest_neighbors.pkl'',
      ''ml_models/saved_models/recommendation_scaler.pkl'']"
  by (simp add: rec_fit_and_evaluate_def rec_save_models_def dumps_of_def map_filter_simps)

lemma perf_post_quiet:
  "\<forall>s \<in> set (perf_save_models @ perf_export_model_parameters @ [Call GenerateVisualizations]).
     \<not> on_model s"
  by (simp add: perf_save_models_def perf_export_model_parameters_def on_model_def)

lemma rec_post_quiet:
  "\<forall>s \<in> set (rec_save_models @ rec_export_model_parameters @ [Call GenerateVisualizations]).
     \<not> on_model s"
  by (simp add: rec_save_models_def rec_export_model_parameters_def on_model_def)

section \<open>The claims\<close>

lemmas example_defs =
  alice_def alice_again_def bob_def algebra_def biology_def grade_of_def
  orphan_entities_def small_entities_def duplicate_entities_def lonely_entities_def
  no_courses_entities_def no_grades_entities_def no_preferences_entities_def
  nine_orphans_entities_def ten_entities_def twenty_entities_def

subsection \<open>C1: performance features\<close>

text \<open>
  Claim C1 as stated fails on a table without rows.  With one student, one grade of that
  student and an empty course table, the grade does not resolve and the claim has it
  dropped without an error, leaving a matrix without rows; the frame of the course table
  has no columns and the second merge raises \<^verbatim>\<open>KeyError\<close>.
\<close>

theorem prepare_performance_data_empty_table:
  "filter (resolves no_courses_entities) (grades no_courses_entities) = []
 \<and> prepare_performance_data no_courses_entities = Inl KeyError"
  by (simp add: example_defs resolves_def prepare_performance_data_def merged_rows_def
        merge_def DataFrame_def)

text \<open>
  Claim C1, amended.  For an entity set whose student ids and whose course ids are
  pairwise distinct and whose student, course and grade tables each hold a row,
  \<^verbatim>\<open>prepare_performance_data\<close> returns without an error one feature row for each grade
  whose \<open>student_id\<close> and \<open>course_id\<close> both resolve, in the order of the grades, and drops
  the other grades.  The row of a grade holds the grade point average and the disability
  flag (as 0 or 1) of its student, the difficulty and the credits of its course and its
  own attendance rate; the grade labels are the grade points of those grades; the risk
  label of a row is 1 exactly when its grade point is below 2.0 and 0 otherwise.
\<close>

theorem prepare_performance_data_rows:
  assumes "distinct (map s_id (students data))" and "distinct (map c_id (courses data))"
      and "populated data"
  shows "\<exists>features target at_risk.
           prepare_performance_data data = Inr (features, target, at_risk)
         \<and> features = map (feature_of data) (filter (resolves data) (grades data))
         \<and> target = map grade_point (filter (resolves data) (grades data))
         \<and> length features = length (filter (resolves data) (grades data))
         \<and> length at_risk = length features
         \<and> (\<forall>i < length features.
               f_has_disability (features ! i) \<in> {0, 1}
             \<and> (at_risk ! i = 1 \<longleftrightarrow> target ! i < 2.0)
             \<and> (at_risk ! i = 0 \<longleftrightarrow> \<not> target ! i < 2.0))"
proof -
  let ?R = "filter (resolves data) (grades data)"
  note j = joined_distinct [OF assms(1,2)]
  have p: "prepare_performance_data data =
             Inr (map (feature_of data) ?R, map grade_point ?R,
                  map (\<lambda>g. astype_int (grade_point g < 2.0)) ?R)"
    by (simp add: prepare_performance_data_def merged_rows_populated [OF assms(3)] j
          Let_def comp_def feature_of_def astype_int_def)
  have d: "\<forall>i < length ?R. f_has_disability (map (feature_of data) ?R ! i) \<in> {0, 1}"
    by (simp add: feature_of_def)
  have r: "\<forall>i < length ?R.
             (map (\<lambda>g. astype_int (grade_point g < 2.0)) ?R ! i = 1
                \<longleftrightarrow> map grade_point ?R ! i < 2.0)
           \<and> (map (\<lambda>g. astype_int (grade_point g < 2.0)) ?R ! i = 0
                \<longleftrightarrow> \<not> map grade_point ?R ! i < 2.0)"
    by (simp add: astype_int_def)
  from p d r show ?thesis by simp
qed

text \<open>Witness for C1: two grades, the first of an unknown student; one row is returned,
  at risk.\<close>

theorem prepare_performance_data_rows_witness:
  "distinct (map s_id (students orphan_entities))
 \<and> distinct (map c_id (courses orphan_entities))
 \<and> populated orphan_entities
 \<and> filter (resolves orphan_entities) (grades orphan_entities) = [grade_of ''s1'' ''c1'' 1]
 \<and> prepare_performance_data orphan_entities =
     Inr ([\<lparr>f_current_gpa = 3, f_course_difficulty = 2, f_attendance_rate = 80,
             f_has_disability = 1, f_credits = 3\<rparr>], [1], [1])"
proof -
  have d1: "distinct (map s_id (students orphan_entities))"
    and d2: "distinct (map c_id (courses orphan_entities))"
    and p: "populated orphan_entities"
    and f: "filter (resolves orphan_entities) (grades orphan_entities)
              = [grade_of ''s1'' ''c1'' 1]"
    by (simp_all add: example_defs populated_def resolves_def)
  have v: "feature_of orphan_entities (grade_of ''s1'' ''c1'' 1) =
             \<lparr>f_current_gpa = 3, f_course_difficulty = 2, f_attendance_rate = 80,
              f_has_disability = 1, f_credits = 3\<rparr>"
    by (simp add: feature_of_def student_of_def course_of_def example_defs)
  from prepare_performance_data_rows [OF d1 d2 p]
  obtain features target at_risk where
    e: "prepare_performance_data orphan_entities = Inr (features, target, at_risk)"
    and x: "features = map (feature_of orphan_entities)
                         (filter (resolves orphan_entities) (grades orphan_entities))"
    and t: "target = map grade_point (filter (resolves orphan_entities) (grades orphan_entities))"
    and l: "length at_risk = length features"
    and r: "\<forall>i < length features. (at_risk ! i = 1 \<longleftrightarrow> target ! i < 2.0)"
    by blast
  from x f v have x': "features = [\<lparr>f_current_gpa = 3, f_course_difficulty = 2,
      f_attendance_rate = 80, f_has_disability = 1, f_credits = 3\<rparr>]"
    by simp
  from t f have t': "target = [1]" by (simp add: grade_of_def)
  from l x' obtain a where a: "at_risk = [a]" by (cases at_risk) auto
  from r x' t' a have "a = 1" by simp
  with e x' t' a d1 d2 p f show ?thesis by simp
qed

subsection \<open>C2: training pairs\<close>

text \<open>
  Claim C2 fails on the code.  With the grades \<open>[(zz, c1, 4.0), (s1, c1, 1.0)]\<close>, where
  no student \<open>zz\<close> exists, the join keeps one row, the grade of \<open>s1\<close>.  The assembled
  frame has two rows: row 0 is that grade, labelled \<open>success = 0\<close>, but its
  \<open>avg_previous_grade\<close> is 4.0, the mean of \<open>zz\<close>, where the mean of \<open>s1\<close> is 1.0; row 1
  has no joined columns at all.  The averages are indexed by the rows of the grade table,
  the other columns by the rows of the join, and the frame pairs them by position.
\<close>

theorem prepare_training_data_misaligned:
  "length (joined orphan_entities) = 1
 \<and> prepare_training_data orphan_entities =
     Inr [\<lparr>merged_cols = Some \<lparr>t_student_id = ''s1'', t_course_id = ''c1'', t_student_gpa = 3,
              t_course_difficulty = 2, t_has_disability = 1, t_credits = 3, t_actual_grade = 1,
              t_success = 0\<rparr>,
           avg_previous_grade = Some 4\<rparr>,
          \<lparr>merged_cols = None, avg_previous_grade = Some 1\<rparr>]
 \<and> mean (history orphan_entities ''s1'') = 1"
  by (simp add: prepare_training_data_def example_defs merged_rows_def merge_def DataFrame_def
        inner_join_def joined_def dataframe_align_def student_avg_grades_def mean_def
        astype_int_def upt_conv_Cons history_def)

subsection \<open>C3: fewer than ten rows\<close>

text \<open>
  Claim C3 as stated fails.  With three joined rows neither trainer raises: both
  \<^verbatim>\<open>train_models\<close> methods return normally.  And the recommendation trainer does not
  always stop when fewer than ten rows are joined: with nine grades of an unknown student
  and one grade that resolves, one row is joined, yet the scaler is fit and the split is
  called (here the split raises).  With an empty grade table no row is joined and both
  trainers raise \<^verbatim>\<open>KeyError\<close> while assembling, before the row check.
\<close>

theorem train_models_small_does_not_raise:
  "length (joined small_entities) = 3
 \<and> \<not> isl (fst (perf_train_models lib_ok small_entities init))
 \<and> \<not> isl (fst (rec_train_models lib_ok small_entities init))
 \<and> length (joined nine_orphans_entities) = 1
 \<and> fst (rec_train_models (lib_failing TrainTestSplit) nine_orphans_entities init)
     = Inl LibraryError
 \<and> trace (snd (rec_train_models (lib_failing TrainTestSplit) nine_orphans_entities init))
     = [ScalerFitTransform]
 \<and> joined no_grades_entities = []
 \<and> fst (perf_train_models lib_ok no_grades_entities init) = Inl KeyError
 \<and> fst (rec_train_models lib_ok no_grades_entities init) = Inl KeyError"
  by code_simp

text \<open>
  Claim C3, amended.  For an entity set whose student, course and grade tables each hold a
  row and whose joined row count is below 10 (and, for the recommendation trainer, whose
  grade table has fewer than 10 rows as well), \<^verbatim>\<open>train_models\<close> returns \<^verbatim>\<open>None\<close> without
  raising and leaves the trainer untouched: no scaler fit, no split, no model fit, nothing
  saved or exported, whatever the libraries would have done.
\<close>

theorem train_models_insufficient_data:
  "(populated data \<and> length (joined data) < 10 \<longrightarrow>
      perf_train_models lib data st = (Inr None, st))
 \<and> (populated data \<and> length (joined data) < 10 \<and> length (grades data) < 10 \<longrightarrow>
      rec_train_models lib' data st' = (Inr None, st'))"
  by (auto simp: perf_train_models_def rec_train_models_def prepare_performance_data_def
        prepare_training_data_def merged_rows_populated dataframe_align_def
        student_avg_grades_def Let_def)

text \<open>Witness for C3: two grades, one of them resolving.\<close>

theorem train_models_insufficient_data_witness:
  "populated orphan_entities
 \<and> length (joined orphan_entities) < 10
 \<and> length (grades orphan_entities) < 10
 \<and> perf_train_models lib_ok orphan_entities init = (Inr None, init)
 \<and> rec_train_models lib_ok orphan_entities init = (Inr None, init)"
proof -
  have p: "populated orphan_entities"
    and j: "length (joined orphan_entities) < 10"
    and g: "length (grades orphan_entities) < 10"
    by (simp_all add: example_defs populated_def joined_def inner_join_def)
  from train_models_insufficient_data
         [of orphan_entities lib_ok "init :: perf_family trainer" lib_ok
             "init :: rec_family trainer"] p j g
  show ?thesis by simp
qed

subsection \<open>C4: a model family that fails to fit\<close>

text \<open>
  Claim C4 as stated fails: there is no handler around any fit.  On ten resolving grades,
  with the fit of the boosted classifier raising and every other library call returning,
  the performance run ends with that exception: the regressor, the remaining family, is
  never constructed, no results are returned, no model file is written and no snapshot is
  exported.
\<close>

theorem fit_failure_aborts_run:
  "fst (perf_train_models (lib_failing (Fit GradientBoostingClassifier Train)) ten_entities init)
     = Inl LibraryError
 \<and> slot (snd (perf_train_models (lib_failing (Fit GradientBoostingClassifier Train))
               ten_entities init)) RandomForestRegressor = Unset
 \<and> saved_models (snd (perf_train_models (lib_failing (Fit GradientBoostingClassifier Train))
               ten_entities init)) = []
 \<and> exported (snd (perf_train_models (lib_failing (Fit GradientBoostingClassifier Train))
               ten_entities init)) = None"
  by code_simp

text \<open>
  Claim C4, amended.  In a run that passes the ten-row check, a fit of any model family
  that raises ends the whole run with an exception (all-or-nothing): \<^verbatim>\<open>train_models\<close>
  returns no results, and the run writes no model file and no snapshot.
\<close>

theorem fit_failure_propagates:
  "(\<not> isl (prepare_performance_data data)
      \<and> 10 \<le> length (fst (projr (prepare_performance_data data)))
      \<and> lib (Fit f Train) \<noteq> None \<longrightarrow>
      isl (fst (perf_train_models lib data st))
      \<and> saved_models (snd (perf_train_models lib data st)) = saved_models st
      \<and> exported (snd (perf_train_models lib data st)) = exported st)
 \<and> (\<not> isl (prepare_training_data data)
      \<and> 10 \<le> length (projr (prepare_training_data data))
      \<and> lib' (Fit f' Train) \<noteq> None \<longrightarrow>
      isl (fst (rec_train_models lib' data st'))
      \<and> saved_models (snd (rec_train_models lib' data st')) = saved_models st'
      \<and> exported (snd (rec_train_models lib' data st')) = exported st')"
proof (rule conjI; rule impI)
  assume a: "\<not> isl (prepare_performance_data data)
      \<and> 10 \<le> length (fst (projr (prepare_performance_data data)))
      \<and> lib (Fit f Train) \<noteq> None"
  from run_prefix_raises [OF perf_fit_in_body _ perf_prefix_no_write, of lib f _ st] a
  obtain e st1 where "run lib perf_body st = (Some e, st1)"
    "saved_models st1 = saved_models st" "exported st1 = exported st"
    unfolding perf_body_def by blast
  with a show "isl (fst (perf_train_models lib data st))
      \<and> saved_models (snd (perf_train_models lib data st)) = saved_models st
      \<and> exported (snd (perf_train_models lib data st)) = exported st"
    by (cases "prepare_performance_data data")
       (auto simp: perf_train_models_def split: prod.splits)
next
  assume a: "\<not> isl (prepare_training_data data)
      \<and> 10 \<le> length (projr (prepare_training_data data))
      \<and> lib' (Fit f' Train) \<noteq> None"
  from run_prefix_raises [OF rec_fit_in_body _ rec_prefix_no_write, of lib' f' _ st'] a
  obtain e st1 where "run lib' rec_body st' = (Some e, st1)"
    "saved_models st1 = saved_models st'" "exported st1 = exported st'"
    unfolding rec_body_def by blast
  with a show "isl (fst (rec_train_models lib' data st'))
      \<and> saved_models (snd (rec_train_models lib' data st')) = saved_models st'
      \<and> exported (snd (rec_train_models lib' data st')) = exported st'"
    by (cases "prepare_training_data data") (auto simp: rec_train_models_def)
qed

text \<open>Witness for C4: the random forest fit of the performance task and the AdaBoost fit
  of the recommendation task raise.\<close>

theorem fit_failure_propagates_witness:
  "\<not> isl (prepare_performance_data ten_entities)
 \<and> 10 \<le> length (fst (projr (prepare_performance_data ten_entities)))
 \<and> lib_failing (Fit RandomForestClassifier Train) (Fit RandomForestClassifier Train) \<noteq> None
 \<and> isl (fst (perf_train_models (lib_failing (Fit RandomForestClassifier Train)) ten_entities init))
 \<and> saved_models (snd (perf_train_models (lib_failing (Fit RandomForestClassifier Train))
                   ten_entities init)) = []
 \<and> \<not> isl (prepare_training_data ten_entities)
 \<and> 10 \<le> length (projr (prepare_training_data ten_entities))
 \<and> lib_failing (Fit AdaboostModel Train) (Fit AdaboostModel Train) \<noteq> None
 \<and> isl (fst (rec_train_models (lib_failing (Fit AdaboostModel Train)) ten_entities init))
 \<and> exported (snd (rec_train_models (lib_failing (Fit AdaboostModel Train))
                   ten_entities init)) = None"
proof -
  have p: "\<not> isl (prepare_performance_data ten_entities)"
    and p': "10 \<le> length (fst (projr (prepare_performance_data ten_entities)))"
    and r: "\<not> isl (prepare_training_data ten_entities)"
    and r': "10 \<le> length (projr (prepare_training_data ten_entities))"
    by code_simp+
  have l: "lib_failing (Fit RandomForestClassifier Train) (Fit RandomForestClassifier Train) \<noteq> None"
    and l': "lib_failing (Fit AdaboostModel Train) (Fit AdaboostModel Train) \<noteq> None"
    by (simp_all add: lib_failing_def)
  from fit_failure_propagates
         [of ten_entities "lib_failing (Fit RandomForestClassifier Train)" RandomForestClassifier
             init "lib_failing (Fit AdaboostModel Train)" AdaboostModel init] p p' r r' l l'
  show ?thesis by (simp add: init_def)
qed

subsection \<open>C5: evaluation protocol\<close>

text \<open>
  Claim C5 as stated fails: not every classifier receives every metric.  On twenty grades
  with both labels, in runs that get through the evaluation, the boosted classifier of the
  risk task is fit but never cross-validated, and the nearest-neighbour classifier of the
  recommendation task is fit but precision and recall are never computed for it.  For the
  risk task the run is shown both with the visualisation raising and with it returning.
\<close>

theorem evaluation_metrics_missing:
  "Fit GradientBoostingClassifier Train
     \<in> set (trace (snd (perf_train_models (lib_failing GenerateVisualizations)
                          twenty_entities init)))
 \<and> CrossValScore GradientBoostingClassifier Train 5
     \<notin> set (trace (snd (perf_train_models (lib_failing GenerateVisualizations)
                          twenty_entities init)))
 \<and> CrossValScore GradientBoostingClassifier Train 5
     \<notin> set (trace (snd (perf_train_models lib_ok twenty_entities init)))
 \<and> Fit KnnModel Train
     \<in> set (trace (snd (rec_train_models lib_ok twenty_entities init)))
 \<and> PrecisionRecallFscoreSupport KnnModel Test
     \<notin> set (trace (snd (rec_train_models lib_ok twenty_entities init)))"
  by code_simp

text \<open>
  Claim C5, amended.  In a run that gets as far as saving a model, the calls made on each
  classifier are, in order: the fit on the training split, the prediction and the predicted
  probabilities on the test split, then on the test labels accuracy, F1 for the positive
  class (on the risk task computed together with precision and recall, on the
  recommendation task alone, without precision and recall) and ROC-AUC from the
  probabilities.  A 5-fold cross-validated F1 on the training split follows only for
  logistic regression and the bagged classifier of the risk task and for the
  nearest-neighbour and decision-tree classifiers of the recommendation task.  The only
  further calls on a classifier are the rule dump of the decision tree and the feature
  importances and confusion matrices of the bagged classifiers and the decision tree.
\<close>

theorem evaluation_calls:
  "(saved_models st = [] \<and> trace st = []
      \<and> saved_models (snd (perf_train_models lib data st)) \<noteq> [] \<longrightarrow>
      calls_on LogisticModel (trace (snd (perf_train_models lib data st))) =
        [Fit LogisticModel Train, Predict LogisticModel Test, PredictProba LogisticModel Test,
         AccuracyScore LogisticModel Test, PrecisionRecallFscoreSupport LogisticModel Test,
         RocAucScore LogisticModel Test, CrossValScore LogisticModel Train 5]
      \<and> calls_on RandomForestClassifier (trace (snd (perf_train_models lib data st))) =
        [Fit RandomForestClassifier Train, Predict RandomForestClassifier Test,
         PredictProba RandomForestClassifier Test, AccuracyScore RandomForestClassifier Test,
         PrecisionRecallFscoreSupport RandomForestClassifier Test,
         RocAucScore RandomForestClassifier Test, CrossValScore RandomForestClassifier Train 5,
         FeatureImportances RandomForestClassifier, ConfusionMatrix RandomForestClassifier Test]
      \<and> calls_on GradientBoostingClassifier (trace (snd (perf_train_models lib data st))) =
        [Fit GradientBoostingClassifier Train, Predict GradientBoostingClassifier Test,
         PredictProba GradientBoostingClassifier Test,
         AccuracyScore GradientBoostingClassifier Test,
         PrecisionRecallFscoreSupport GradientBoostingClassifier Test,
         RocAucScore GradientBoostingClassifier Test])
 \<and> (saved_models st' = [] \<and> trace st' = []
      \<and> saved_models (snd (rec_train_models lib' data st')) \<noteq> [] \<longrightarrow>
      calls_on KnnModel (trace (snd (rec_train_models lib' data st'))) =
        [Fit KnnModel Train, Predict KnnModel Test, PredictProba KnnModel Test,
         AccuracyScore KnnModel Test, F1Score KnnModel Test, RocAucScore KnnModel Test,
         CrossValScore KnnModel Train 5]
      \<and> calls_on DecisionTreeModel (trace (snd (rec_train_models lib' data st'))) =
        [Fit DecisionTreeModel Train, Predict DecisionTreeModel Test,
         PredictProba DecisionTreeModel Test, AccuracyScore DecisionTreeModel Test,
         F1Score DecisionTreeModel Test, RocAucScore DecisionTreeModel Test,
         CrossValScore DecisionTreeModel Train 5, ExportText DecisionTreeModel,
         ConfusionMatrix DecisionTreeModel Test]
      \<and> calls_on RandomForestModel (trace (snd (rec_train_models lib' data st'))) =
        [Fit RandomForestModel Train, Predict RandomForestModel Test,
         PredictProba RandomForestModel Test, AccuracyScore RandomForestModel Test,
         F1Score RandomForestModel Test, RocAucScore RandomForestModel Test,
         FeatureImportances RandomForestModel, ConfusionMatrix RandomForestModel Test]
      \<and> calls_on AdaboostModel (trace (snd (rec_train_models lib' data st'))) =
        [Fit AdaboostModel Train, Predict AdaboostModel Test, PredictProba AdaboostModel Test,
         AccuracyScore AdaboostModel Test, F1Score AdaboostModel Test,
         RocAucScore AdaboostModel Test])"
proof (rule conjI; rule impI)
  assume a: "saved_models st = [] \<and> trace st = []
      \<and> saved_models (snd (perf_train_models lib data st)) \<noteq> []"
  then have s: "snd (perf_train_models lib data st) = snd (run lib perf_body st)"
    by (auto simp: perf_train_models_state split: if_splits)
  have b: "perf_body = perf_fit_and_evaluate
             @ (perf_save_models @ perf_export_model_parameters @ [Call GenerateVisualizations])"
    by (simp add: perf_body_def)
  from a s have n: "saved_models (snd (run lib perf_body st)) \<noteq> []" by simp
  have c: "calls_on f (trace (snd (run lib perf_body st)))
             = calls_on f (calls_of perf_fit_and_evaluate)" for f
    using run_reaches_save [OF _ perf_prefix_no_write perf_post_quiet n [unfolded b], of f] a
    unfolding b by simp
  show "calls_on LogisticModel (trace (snd (perf_train_models lib data st))) =
        [Fit LogisticModel Train, Predict LogisticModel Test, PredictProba LogisticModel Test,
         AccuracyScore LogisticModel Test, PrecisionRecallFscoreSupport LogisticModel Test,
         RocAucScore LogisticModel Test, CrossValScore LogisticModel Train 5]
      \<and> calls_on RandomForestClassifier (trace (snd (perf_train_models lib data st))) =
        [Fit RandomForestClassifier Train, Predict RandomForestClassifier Test,
         PredictProba RandomForestClassifier Test, AccuracyScore RandomForestClassifier Test,
         PrecisionRecallFscoreSupport RandomForestClassifier Test,
         RocAucScore RandomForestClassifier Test, CrossValScore RandomForestClassifier Train 5,
         FeatureImportances RandomForestClassifier, ConfusionMatrix RandomForestClassifier Test]
      \<and> calls_on GradientBoostingClassifier (trace (snd (perf_train_models lib data st))) =
        [Fit GradientBoostingClassifier Train, Predict GradientBoostingClassifier Test,
         PredictProba GradientBoostingClassifier Test,
         AccuracyScore GradientBoostingClassifier Test,
         PrecisionRecallFscoreSupport GradientBoostingClassifier Test,
         RocAucScore GradientBoostingClassifier Test]"
    unfolding s c
    by (simp add: perf_fit_and_evaluate_def calls_of_def calls_on_def map_filter_simps)
next
  assume a: "saved_models st' = [] \<and> trace st' = []
      \<and> saved_models (snd (rec_train_models lib' data st')) \<noteq> []"
  then have s: "snd (rec_train_models lib' data st') = snd (run lib' rec_body st')"
    by (auto simp: rec_train_models_state split: if_splits)
  have b: "rec_body = rec_fit_and_evaluate
             @ (rec_save_models @ rec_export_model_parameters @ [Call GenerateVisualizations])"
    by (simp add: rec_body_def)
  from a s have n: "saved_models (snd (run lib' rec_body st')) \<noteq> []" by simp
  have c: "calls_on f (trace (snd (run lib' rec_body st')))
             = calls_on f (calls_of rec_fit_and_evaluate)" for f
    using run_reaches_save [OF _ rec_prefix_no_write rec_post_quiet n [unfolded b], of f] a
    unfolding b by simp
  show "calls_on KnnModel (trace (snd (rec_train_models lib' data st'))) =
        [Fit KnnModel Train, Predict KnnModel Test, PredictProba KnnModel Test,
         AccuracyScore KnnModel Test, F1Score KnnModel Test, RocAucScore KnnModel Test,
         CrossValScore KnnModel Train 5]
      \<and> calls_on DecisionTreeModel (trace (snd (rec_train_models lib' data st'))) =
        [Fit DecisionTreeModel Train, Predict DecisionTreeModel Test,
         PredictProba DecisionTreeModel Test, AccuracyScore DecisionTreeModel Test,
         F1Score DecisionTreeModel Test, RocAucScore DecisionTreeModel Test,
         CrossValScore DecisionTreeModel Train 5, ExportText DecisionTreeModel,
         ConfusionMatrix DecisionTreeModel Test]
      \<and> calls_on RandomForestModel (trace (snd (rec_train_models lib' data st'))) =
        [Fit RandomForestModel Train, Predict RandomForestModel Test,
         PredictProba RandomForestModel Test, AccuracyScore RandomForestModel Test,
         F1Score RandomForestModel Test, RocAucScore RandomForestModel Test,
         FeatureImportances RandomForestModel, ConfusionMatrix RandomForestModel Test]
      \<and> calls_on AdaboostModel (trace (snd (rec_train_models lib' data st'))) =
        [Fit AdaboostModel Train, Predict AdaboostModel Test, PredictProba AdaboostModel Test,
         AccuracyScore AdaboostModel Test, F1Score AdaboostModel Test,
         RocAucScore AdaboostModel Test]"
    unfolding s c
    by (simp add: rec_fit_and_evaluate_def calls_of_def calls_on_def map_filter_simps)
qed

text \<open>Witness for C5: the risk run on twenty grades with the visualisation raising after
  the models are saved, the recommendation run with every library call returning.\<close>

theorem evaluation_calls_witness:
  "saved_models (init :: perf_family trainer) = []
 \<and> trace (init :: perf_family trainer) = []
 \<and> saved_models (snd (perf_train_models (lib_failing GenerateVisualizations)
                         twenty_entities init)) \<noteq> []
 \<and> isl (fst (perf_train_models (lib_failing GenerateVisualizations) twenty_entities init))
 \<and> calls_on GradientBoostingClassifier
      (trace (snd (perf_train_models (lib_failing GenerateVisualizations)
                     twenty_entities init))) =
        [Fit GradientBoostingClassifier Train, Predict GradientBoostingClassifier Test,
         PredictProba GradientBoostingClassifier Test,
         AccuracyScore GradientBoostingClassifier Test,
         PrecisionRecallFscoreSupport GradientBoostingClassifier Test,
         RocAucScore GradientBoostingClassifier Test]
 \<and> saved_models (init :: rec_family trainer) = []
 \<and> trace (init :: rec_family trainer) = []
 \<and> saved_models (snd (rec_train_models lib_ok twenty_entities init)) \<noteq> []
 \<and> calls_on AdaboostModel (trace (snd (rec_train_models lib_ok twenty_entities init))) =
        [Fit AdaboostModel Train, Predict AdaboostModel Test, PredictProba AdaboostModel Test,
         AccuracyScore AdaboostModel Test, F1Score AdaboostModel Test,
         RocAucScore AdaboostModel Test]"
proof -
  have p: "saved_models (snd (perf_train_models (lib_failing GenerateVisualizations)
                         twenty_entities init)) \<noteq> []"
    and e: "isl (fst (perf_train_models (lib_failing GenerateVisualizations)
                         twenty_entities init))"
    and q: "saved_models (snd (rec_train_models lib_ok twenty_entities init)) \<noteq> []"
    by code_simp+
  have i: "saved_models (init :: perf_family trainer) = []"
    "trace (init :: perf_family trainer) = []"
    "saved_models (init :: rec_family trainer) = []"
    "trace (init :: rec_family trainer) = []"
    by (simp_all add: init_def)
  from evaluation_calls
         [of init "lib_failing GenerateVisualizations" twenty_entities init lib_ok] p q i e
  show ?thesis by simp
qed

subsection \<open>C6: normalisation\<close>

text \<open>
  Claim C6 as stated fails in two ways.  The function returns the frame alone: two frames
  whose fitted scaling parameters differ are mapped to the same result, so the
  parameters cannot be read off what is returned.  And not every column comes out with
  variance 1: a constant column is mapped to zeros, and the column \<open>[10\<^sup>1\<^sup>6, 10\<^sup>1\<^sup>6 + 4]\<close>,
  which the scaler takes to be constant, is mapped to \<open>[-2, 2]\<close>, of variance 4.
\<close>

theorem normalize_features_drops_scaler:
  "normalize_features frame_a = normalize_features frame_b
 \<and> scaler_fit (select_numeric frame_a) \<noteq> scaler_fit (select_numeric frame_b)
 \<and> normalize_features frame_const = Inr [(''x'', NumCol [0, 0])]
 \<and> variance [0, 0] \<noteq> 1
 \<and> normalize_features frame_large = Inr [(''x'', NumCol [-2, 2])]
 \<and> variance [-2, 2] \<noteq> 1"
proof -
  have m: "mean [10000000000000000, 10000000000000004 :: real] = 10000000000000002"
    by (simp add: mean_def)
  have w: "variance [10000000000000000, 10000000000000004 :: real] = 4"
    unfolding variance_def m by (simp add: mean_def)
  have c: "scale_of [10000000000000000, 10000000000000004] = 1"
    unfolding scale_of_def w m by (simp add: is_constant_feature_def eps_def power2_eq_square)
  have l: "normalize_features frame_large = Inr [(''x'', NumCol [-2, 2])]"
    by (simp add: frame_large_def normalize_features_def fit_transform_def standardize_def c m)
  have r: "normalize_features frame_a = normalize_features frame_b
     \<and> scaler_fit (select_numeric frame_a) \<noteq> scaler_fit (select_numeric frame_b)
     \<and> normalize_features frame_const = Inr [(''x'', NumCol [0, 0])]
     \<and> variance [0, 0] \<noteq> 1 \<and> variance [-2, 2] \<noteq> 1"
    by (simp add: frame_a_def frame_b_def frame_const_def normalize_features_def
          fit_transform_def standardize_def scale_of_def is_constant_feature_def eps_def
          mean_def variance_def power2_eq_square scaler_fit_def)
  from r l show ?thesis by blast
qed

text \<open>
  Claim C6, amended.  \<^verbatim>\<open>normalize_features\<close> returns only the transformed frame; the
  fitted scaler is local to the call and is not part of the result.  In the returned
  frame every numeric column is replaced by its standardised values and every other
  column is unchanged.  A standardised non-empty column has mean 0.  It has variance 1
  unless the scaler takes the column to be constant, that is unless the variance of its
  \<open>n\<close> values is at most \<open>n * eps * var + (n * mean * eps)\<^sup>2\<close>; such a column is only
  centred, not rescaled.
\<close>

theorem normalize_features_result:
  "(normalize_features df = Inr df' \<longrightarrow>
      df' = map (\<lambda>(name, col).
                   (name, case col of NumCol xs \<Rightarrow> NumCol (standardize xs) | _ \<Rightarrow> col)) df)
 \<and> (xs \<noteq> [] \<longrightarrow>
      mean (standardize xs) = 0
      \<and> (\<not> is_constant_feature (variance xs) (mean xs) (length xs) \<longrightarrow>
            variance (standardize xs) = 1)
      \<and> (is_constant_feature (variance xs) (mean xs) (length xs) \<longrightarrow>
            standardize xs = map (\<lambda>x. x - mean xs) xs))"
  by (auto simp: normalize_features_def fit_transform_def assign_select mean_standardize
        variance_standardize standardize_constant split: list.splits if_splits)

text \<open>Witness for C6: a frame with one numeric and one text column; a varying column,
  and a column of large values with a small spread, which the scaler takes to be
  constant.\<close>

theorem normalize_features_result_witness:
  "normalize_features frame_a = Inr [(''x'', NumCol [-1, 1]), (''label'', ObjCol [''a'', ''b''])]
 \<and> [1, 3 :: real] \<noteq> []
 \<and> \<not> is_constant_feature (variance [1, 3]) (mean [1, 3]) (length [1, 3 :: real])
 \<and> mean (standardize [1, 3]) = 0 \<and> variance (standardize [1, 3]) = 1
 \<and> [10 ^ 16, 10 ^ 16 + 4 :: real] \<noteq> []
 \<and> is_constant_feature (variance [10 ^ 16, 10 ^ 16 + 4]) (mean [10 ^ 16, 10 ^ 16 + 4])
      (length [10 ^ 16, 10 ^ 16 + 4 :: real])
 \<and> standardize [10 ^ 16, 10 ^ 16 + 4] = [-2, 2]"
proof -
  have n: "normalize_features frame_a
             = Inr [(''x'', NumCol [-1, 1]), (''label'', ObjCol [''a'', ''b''])]"
    by (simp add: frame_a_def normalize_features_def fit_transform_def standardize_def
          scale_of_def is_constant_feature_def eps_def mean_def variance_def power2_eq_square)
  have v: "\<not> is_constant_feature (variance [1, 3]) (mean [1, 3]) (length [1, 3 :: real])"
    by (simp add: is_constant_feature_def eps_def variance_def mean_def power2_eq_square)
  have m: "mean [10 ^ 16, 10 ^ 16 + 4 :: real] = 10 ^ 16 + 2"
    by (simp add: mean_def)
  have w: "variance [10 ^ 16, 10 ^ 16 + 4 :: real] = 4"
    unfolding variance_def m by (simp add: mean_def)
  have c: "is_constant_feature (variance [10 ^ 16, 10 ^ 16 + 4]) (mean [10 ^ 16, 10 ^ 16 + 4])
             (length [10 ^ 16, 10 ^ 16 + 4 :: real])"
    unfolding w m by (simp add: is_constant_feature_def eps_def power2_eq_square)
  from normalize_features_result
         [of frame_a "[(''x'', NumCol [-1, 1]), (''label'', ObjCol [''a'', ''b''])]" "[1, 3]"]
       normalize_features_result [of frame_a _ "[10 ^ 16, 10 ^ 16 + 4]"] n v c m
  show ?thesis by simp
qed

subsection \<open>C7: recommendation candidates\<close>




subsection \<open>C8: the target student\<close>




subsection \<open>C9: the exported snapshot\<close>

text \<open>
  Claim C9 as stated fails.  In a recommendation run on twenty grades with both labels,
  the nearest-neighbour index is fit, yet no entry of the exported dictionary is read from
  it; and the dictionaries of both tasks have a key \<open>metadata\<close> that is read from no
  model.  The export precedes the visualisation, so this is so whether the visualisation
  returns or raises.
\<close>

theorem snapshot_keys_differ:
  "exported (snd (rec_train_models lib_ok twenty_entities init)) = Some rec_params
 \<and> slot (snd (rec_train_models lib_ok twenty_entities init)) NearestNeighbors = Fitted
 \<and> NearestNeighbors \<notin> set (snapshot_families rec_params)
 \<and> map fst rec_params = [''metadata'', ''knn'', ''decision_tree'', ''random_forest'', ''adaboost'']
 \<and> exported (snd (rec_train_models (lib_failing GenerateVisualizations) twenty_entities init))
     = Some rec_params
 \<and> exported (snd (perf_train_models (lib_failing GenerateVisualizations) twenty_entities init))
     = Some perf_params
 \<and> hd perf_params =
     (''metadata'', None,
      [''model_version'', ''training_samples'', ''feature_names'', ''trained_at''])"
  by code_simp

text \<open>
  Claim C9, amended.  A run that reaches the export writes one dictionary whose keys are
  \<open>metadata\<close> followed by one key per exported model.  For the performance task the
  exported models are exactly the model families fit in the run (all four).  For the
  recommendation task they are the fitted families except the nearest-neighbour index,
  which is fit and saved to its own file but has no entry.
\<close>

theorem snapshot_keys:
  "(exported st = None \<and> exported (snd (perf_train_models lib data st)) = Some snap \<longrightarrow>
      map fst snap = [''metadata'', ''logistic_regression'', ''random_forest_classifier'',
                      ''gradient_boosting_classifier'', ''random_forest_regressor'']
      \<and> set (snapshot_families snap) = {f. slot (snd (perf_train_models lib data st)) f = Fitted})
 \<and> (exported st' = None \<and> exported (snd (rec_train_models lib' data st')) = Some snap' \<longrightarrow>
      map fst snap' = [''metadata'', ''knn'', ''decision_tree'', ''random_forest'', ''adaboost'']
      \<and> set (snapshot_families snap')
           = {f. slot (snd (rec_train_models lib' data st')) f = Fitted} - {NearestNeighbors}
      \<and> slot (snd (rec_train_models lib' data st')) NearestNeighbors = Fitted
      \<and> ''ml_models/saved_models/nearest_neighbors.pkl''
           \<in> set (saved_models (snd (rec_train_models lib' data st'))))"
proof (rule conjI; rule impI)
  assume a: "exported st = None \<and> exported (snd (perf_train_models lib data st)) = Some snap"
  then have s: "snd (perf_train_models lib data st) = snd (run lib perf_body st)"
    by (auto simp: perf_train_models_state split: if_splits)
  from a s have b: "exported (snd (run lib perf_body st)) = Some snap" by simp
  note r = run_reaches_export [OF conjunct1 [OF a] perf_pre_no_json b [unfolded perf_body_split]]
  from r have "slot (snd (run lib perf_body st)) = slots_after (perf_fit_and_evaluate @ perf_save_models
       @ [ReadAttrs [LogisticModel, RandomForestClassifier, RandomForestRegressor]
                    [GradientBoostingClassifier]]) (slot st)"
    unfolding perf_body_split by blast
  then have "\<And>f. slot (snd (run lib perf_body st)) f = Fitted"
    by (simp only: perf_slots_after)
  with conjunct1 [OF r] show "map fst snap = [''metadata'', ''logistic_regression'', ''random_forest_classifier'',
                      ''gradient_boosting_classifier'', ''random_forest_regressor'']
      \<and> set (snapshot_families snap) = {f. slot (snd (perf_train_models lib data st)) f = Fitted}"
    unfolding s
    by (auto simp: perf_params_def snapshot_families_def map_filter_simps intro: perf_family.exhaust)
next
  assume a: "exported st' = None \<and> exported (snd (rec_train_models lib' data st')) = Some snap'"
  then have s: "snd (rec_train_models lib' data st') = snd (run lib' rec_body st')"
    by (auto simp: rec_train_models_state split: if_splits)
  from a s have b: "exported (snd (run lib' rec_body st')) = Some snap'" by simp
  note r = run_reaches_export [OF conjunct1 [OF a] rec_pre_no_json b [unfolded rec_body_split]]
  from r have "slot (snd (run lib' rec_body st')) = slots_after (rec_fit_and_evaluate @ rec_save_models
       @ [ReadAttrs [DecisionTreeModel, RandomForestModel] [KnnModel, AdaboostModel]]) (slot st')"
    unfolding rec_body_split by blast
  then have f: "\<And>f. slot (snd (run lib' rec_body st')) f = Fitted"
    by (simp only: rec_slots_after)
  from r have "saved_models (snd (run lib' rec_body st')) = saved_models st' @ dumps_of (rec_fit_and_evaluate @ rec_save_models
       @ [ReadAttrs [DecisionTreeModel, RandomForestModel] [KnnModel, AdaboostModel]])"
    unfolding rec_body_split by blast
  then have v: "''ml_models/saved_models/nearest_neighbors.pkl''
                  \<in> set (saved_models (snd (run lib' rec_body st')))"
    by (simp add: rec_dumps)
  from conjunct1 [OF r] f v show "map fst snap' = [''metadata'', ''knn'', ''decision_tree'', ''random_forest'', ''adaboost'']
      \<and> set (snapshot_families snap')
           = {f. slot (snd (rec_train_models lib' data st')) f = Fitted} - {NearestNeighbors}
      \<and> slot (snd (rec_train_models lib' data st')) NearestNeighbors = Fitted
      \<and> ''ml_models/saved_models/nearest_neighbors.pkl''
           \<in> set (saved_models (snd (rec_train_models lib' data st')))"
    unfolding s
    by (auto simp: rec_params_def snapshot_families_def map_filter_simps intro: rec_family.exhaust)
qed

text \<open>Witness for C9: both runs on twenty grades, the risk run with the visualisation
  raising after the export, the recommendation run with every library call returning.\<close>

theorem snapshot_keys_witness:
  "exported (init :: perf_family trainer) = None
 \<and> exported (snd (perf_train_models (lib_failing GenerateVisualizations) twenty_entities init))
     = Some perf_params
 \<and> set (snapshot_families perf_params)
     = {f. slot (snd (perf_train_models (lib_failing GenerateVisualizations)
                        twenty_entities init)) f = Fitted}
 \<and> exported (init :: rec_family trainer) = None
 \<and> exported (snd (rec_train_models lib_ok twenty_entities init)) = Some rec_params
 \<and> set (snapshot_families rec_params)
     = {f. slot (snd (rec_train_models lib_ok twenty_entities init)) f = Fitted}
         - {NearestNeighbors}
 \<and> ''ml_models/saved_models/nearest_neighbors.pkl''
     \<in> set (saved_models (snd (rec_train_models lib_ok twenty_entities init)))"
proof -
  have p: "exported (snd (perf_train_models (lib_failing GenerateVisualizations)
                            twenty_entities init)) = Some perf_params"
    and q: "exported (snd (rec_train_models lib_ok twenty_entities init)) = Some rec_params"
    by code_simp+
  have i: "exported (init :: perf_family trainer) = None"
    and j: "exported (init :: rec_family trainer) = None"
    by (simp_all add: init_def)
  from snapshot_keys [of init "lib_failing GenerateVisualizations" twenty_entities perf_params
                         init lib_ok rec_params] p q i j
  show ?thesis by simp
qed

subsection \<open>C10: similarity ranking without peers\<close>

text \<open>
  Claim C10.  When the target student exists and no student with another id has a grade,
  \<^verbatim>\<open>calculate_similarity_features\<close> raises (sorting the column-less empty frame is a
  \<^verbatim>\<open>KeyError\<close>) instead of returning an empty ranking; whenever it returns, the ranking is
  not empty and some student with another id has a grade.
\<close>

theorem calculate_similarity_features_needs_peer:
  assumes "sid \<in> set (map s_id (students data))"
  shows "((\<forall>s \<in> set (students data). s_id s \<noteq> sid \<longrightarrow> \<not> has_history data (s_id s))
            \<longrightarrow> calculate_similarity_features sid data = Inl KeyError)
       \<and> (\<forall>rows. calculate_similarity_features sid data = Inr rows \<longrightarrow>
             rows \<noteq> []
             \<and> (\<exists>s \<in> set (students data). s_id s \<noteq> sid \<and> has_history data (s_id s)))"
proof -
  from assms have n: "students data \<noteq> []" by auto
  from assms have "filter (\<lambda>s. s_id s = sid) (students data) \<noteq> []"
    by (auto simp: filter_empty_conv)
  then obtain st rest where st: "filter (\<lambda>s. s_id s = sid) (students data) = st # rest"
    by (cases "filter (\<lambda>s. s_id s = sid) (students data)") auto
  let ?sim = "concat (map (similar_entry (grades data) sid st) (students data))"
  have e: "?sim = [] \<longleftrightarrow>
           (\<forall>s \<in> set (students data). s_id s \<noteq> sid \<longrightarrow> \<not> has_history data (s_id s))"
    by (simp add: similar_entry_empty has_history_filter) blast
  have g: "grades data = [] \<Longrightarrow> ?sim = []"
    by (simp add: similar_entry_empty)
  have c: "calculate_similarity_features sid data =
           (if ?sim = [] then Inl KeyError else Inr (sort_values_desc ?sim))"
    using n g
    by (cases "grades data = []")
       (simp_all add: calculate_similarity_features_def column_DataFrame st Let_def)
  show ?thesis unfolding c using e by (auto simp: sort_values_desc_Nil)
qed

text \<open>Witness for C10: a population in which only the target has grades, and one in
  which a second student has a grade.\<close>

theorem calculate_similarity_features_needs_peer_witness:
  "''s1'' \<in> set (map s_id (students lonely_entities))
 \<and> \<not> has_history lonely_entities ''s2''
 \<and> calculate_similarity_features ''s1'' lonely_entities = Inl KeyError
 \<and> ''s1'' \<in> set (map s_id (students small_entities))
 \<and> calculate_similarity_features ''s1'' small_entities =
     Inr [\<lparr>sim_student_id = ''s2'', similarity_score = 19 / 10, avg_grade = 1\<rparr>]
 \<and> has_history small_entities ''s2''"
proof -
  have a: "''s1'' \<in> set (map s_id (students lonely_entities))"
    and b: "''s1'' \<in> set (map s_id (students small_entities))"
    and h: "\<not> has_history lonely_entities ''s2''"
    and k: "has_history small_entities ''s2''"
    by (simp_all add: example_defs has_history_def)
  have n: "\<forall>s \<in> set (students lonely_entities).
             s_id s \<noteq> ''s1'' \<longrightarrow> \<not> has_history lonely_entities (s_id s)"
    by (simp add: example_defs has_history_def)
  have r: "calculate_similarity_features ''s1'' small_entities =
     Inr [\<lparr>sim_student_id = ''s2'', similarity_score = 19 / 10, avg_grade = 1\<rparr>]"
    by (simp add: calculate_similarity_features_def column_DataFrame similar_entry_def
          sort_values_desc_def example_defs mean_def)
  from calculate_similarity_features_needs_peer [OF a]
       calculate_similarity_features_needs_peer [OF b] a b h k n r
  show ?thesis by simp
qed

end
